theory Spec2Isabelle
  imports Main "HOL-Library.Word"
begin

unbundle bit_operations_syntax

section \<open>Deferred creation and eviction of OpenGL textures (OpenGLTexture.cpp)\<close>

text \<open>
  A shallow embedding of the eviction subsystem of
  \<^verbatim>\<open>Engine/Source/RunTime/OpenGLDrv/Private/OpenGLTexture.cpp\<close>: the shadow mip store
  (\<^verbatim>\<open>FTextureEvictionParams\<close>), the eligibility predicates, lock and unlock, restore and
  evict, and the LRU registry with its per-frame tick.

  Conventions. \<^verbatim>\<open>uint32\<close> and \<^verbatim>\<open>int32\<close> are 32-bit words; a signed reading is written
  \<open>sint\<close>. A \<^verbatim>\<open>TArray\<close> is a list, its \<^verbatim>\<open>Num()\<close> the length. A byte of a buffer is
  \<open>Some b\<close>, or \<open>None\<close> where the code leaves it uninitialised
  (\<^verbatim>\<open>SetNumUninitialized\<close>). A failed \<^verbatim>\<open>check\<close>, \<^verbatim>\<open>checkf\<close>, \<^verbatim>\<open>checkNoEntry\<close>, fatal log or
  \<^verbatim>\<open>TArray\<close> range check is a \<open>fault\<close> (\<open>Inl\<close>); \<^verbatim>\<open>ensure\<close> only reports and the
  code goes on, so it is no branch of the model. The statistics counters
  (\<^verbatim>\<open>GTotalEvictedMipMemStored\<close> and the like), logging and debug labels are left out.
\<close>

subsection \<open>Machine types, faults\<close>

type_synonym uint8 = "8 word"
type_synonym uint32 = "32 word"
type_synonym int32 = "32 word"

text \<open>The bytes of a \<^verbatim>\<open>TArray<uint8>\<close> or of a pixel buffer.\<close>

type_synonym bytes = "uint8 option list"

datatype fault =
    CheckBytes                  \<comment> \<open>\<^verbatim>\<open>checkf(Bytes, ...)\<close> in SetMipData\<close>
  | CheckNoEntry                \<comment> \<open>\<^verbatim>\<open>checkNoEntry()\<close>: the slot already holds data\<close>
  | RangeCheck                  \<comment> \<open>\<^verbatim>\<open>TArray::operator[]\<close> out of range\<close>
  | NullPointer                 \<comment> \<open>a null \<^verbatim>\<open>EvictionParamsPtr\<close> or texture is dereferenced\<close>
  | DivideByZero                \<comment> \<open>a pixel format with a block size of 0\<close>
  | ShiftTooWide                \<comment> \<open>\<^verbatim>\<open>>>\<close> by 32 or more\<close>
  | CheckArrayIndex             \<comment> \<open>\<^verbatim>\<open>check(!IsEvicted() || ArrayIndex==0)\<close>\<close>
  | CheckPixelBufferSize        \<comment> \<open>\<^verbatim>\<open>check(PixelBuffer->GetSize() == MipBytes)\<close>\<close>
  | CheckPixelBufferLocked      \<comment> \<open>\<^verbatim>\<open>check(!PixelBuffer->IsLocked())\<close>\<close>
  | CheckPixelBufferValid       \<comment> \<open>\<^verbatim>\<open>check(IsValidRef(PixelBuffer))\<close>\<close>
  | CheckAllocatedStorage       \<comment> \<open>\<^verbatim>\<open>check(GetAllocatedStorageForMip(..) == true)\<close>\<close>
  | CheckSizeZ                  \<comment> \<open>\<^verbatim>\<open>check(this->GetSizeZ() == 0)\<close>\<close>
  | CheckAlreadyRestored        \<comment> \<open>\<^verbatim>\<open>check(!EvictionParamsPtr->bHasRestored)\<close>\<close>
  | CheckMipCount               \<comment> \<open>\<^verbatim>\<open>checkf(MipImageData.Num() == GetNumMips(), ...)\<close>\<close>
  | CheckLockSize               \<comment> \<open>\<^verbatim>\<open>check(MipMem.Num() == GetLockSize(..))\<close>\<close>
  | CheckDestStride             \<comment> \<open>\<^verbatim>\<open>check(DestStride)\<close>\<close>
  | CheckTextureID              \<comment> \<open>\<^verbatim>\<open>check(TextureID || TileMemDepth)\<close>\<close>
  | CheckMultisample            \<comment> \<open>\<^verbatim>\<open>check(FOpenGL::SupportsMultisampledTextures())\<close>\<close>
  | CheckMaxSamples             \<comment> \<open>\<^verbatim>\<open>check(GMaxOpenGL..Samples >= (GLint)NumSamples)\<close>\<close>
  | FormatNotSupported          \<comment> \<open>the fatal log of InitializeGLTextureInternal\<close>
  | CheckEvictionParamsValid    \<comment> \<open>the \<^verbatim>\<open>checkf\<close> of CanBeEvicted\<close>
  | CheckAliasedHasNoData       \<comment> \<open>the \<^verbatim>\<open>check\<close> of CanBeEvicted on aliased textures\<close>
  | CheckLRUNodeInvalid         \<comment> \<open>\<^verbatim>\<open>check(!LRUNode.IsValidId())\<close> in Add\<close>
  | CheckLRUNodeValid           \<comment> \<open>\<^verbatim>\<open>check(LRUNode.IsValidId())\<close> in Touch\<close>
  | CheckLRUContains            \<comment> \<open>a \<^verbatim>\<open>check\<close> on \<^verbatim>\<open>GetLRUContainer().Contains(..)\<close>\<close>

text \<open>Sequencing of fallible steps: the first fault ends the run.\<close>

definition bindF :: "fault + 'a \<Rightarrow> ('a \<Rightarrow> fault + 'b) \<Rightarrow> fault + 'b" where
  "bindF m f = (case m of Inl e \<Rightarrow> Inl e | Inr x \<Rightarrow> f x)"

subsection \<open>The shadow mip store: FTextureEvictionParams\<close>

text \<open>
  The class is declared in a header outside this file; its fields are the ones the
  member functions of this file read and write. \<open>LRUNode\<close> is the \<^verbatim>\<open>FSetElementId\<close>:
  \<open>None\<close> is the invalid id, \<open>Some k\<close> a valid one.
\<close>

record FTextureEvictionParams =
  MipImageData :: "bytes list"
  bHasRestored :: bool
  LRUNode :: "nat option"
  FrameLastRendered :: uint32

text \<open>
  \<^verbatim>\<open>FTextureEvictionParams(uint32 NumMips)\<close>: the flag and the frame are 0, the node is
  the default (invalid) id, and \<^verbatim>\<open>SetNum(NumMips)\<close> makes \<open>NumMips\<close> empty slots.
\<close>

definition NewEvictionParams :: "uint32 \<Rightarrow> FTextureEvictionParams" where
  "NewEvictionParams NumMips' =
     \<lparr> MipImageData = replicate (unat NumMips') [],
       bHasRestored = False,
       LRUNode = None,
       FrameLastRendered = 0 \<rparr>"

text \<open>
  \<^verbatim>\<open>FMemory::Memcpy(dst, Data, Bytes)\<close> from a raw pointer: the source is the memory the
  pointer addresses, a function from the byte offset to the byte.
\<close>

definition MemcpyFrom :: "(nat \<Rightarrow> uint8) \<Rightarrow> nat \<Rightarrow> bytes" where
  "MemcpyFrom src n = map (\<lambda>k. Some (src k)) [0..<n]"

text \<open>
  \<^verbatim>\<open>SetMipData(MipIndex, Data, Bytes)\<close>. \<open>Data = None\<close> is the null pointer. The slot is
  read through \<^verbatim>\<open>operator[]\<close> first, so an index out of range faults before anything
  is written.
\<close>

definition SetMipData ::
  "uint32 \<Rightarrow> (nat \<Rightarrow> uint8) option \<Rightarrow> uint32 \<Rightarrow> FTextureEvictionParams
     \<Rightarrow> fault + FTextureEvictionParams" where
  "SetMipData MipIndex Data Bytes' p =
     (if Bytes' = 0 then Inl CheckBytes
      else if \<not> unat MipIndex < length (MipImageData p) then Inl RangeCheck
      else if MipImageData p ! unat MipIndex \<noteq> [] then Inl CheckNoEntry
      else Inr (p\<lparr> MipImageData := (MipImageData p)
                  [unat MipIndex :=
                     (case Data of
                        None \<Rightarrow> replicate (unat Bytes') None
                      | Some src \<Rightarrow> MemcpyFrom src (unat Bytes'))] \<rparr>))"

text \<open>
  The loop of \<^verbatim>\<open>ReleaseMipData\<close>, \<^verbatim>\<open>for (int i = ...; i >= 0; i--) MipImageData[i].Empty()\<close>:
  \<open>ReleaseLoop n\<close> runs the iterations \<open>i = n - 1, ..., 0\<close>.
\<close>

fun ReleaseLoop :: "nat \<Rightarrow> bytes list \<Rightarrow> fault + bytes list" where
  "ReleaseLoop 0 xs = Inr xs"
| "ReleaseLoop (Suc i) xs =
     (if i < length xs then ReleaseLoop i (xs[i := []]) else Inl RangeCheck)"

text \<open>
  \<^verbatim>\<open>ReleaseMipData(uint32 RetainMips)\<close>. The start index
  \<^verbatim>\<open>int i = MipImageData.Num() - 1 - RetainMips\<close> is computed in unsigned 32-bit
  arithmetic and then read as a signed \<^verbatim>\<open>int\<close>.
\<close>

definition ReleaseStart :: "uint32 \<Rightarrow> FTextureEvictionParams \<Rightarrow> int" where
  "ReleaseStart RetainMips p =
     sint (word_of_nat (length (MipImageData p)) - 1 - RetainMips :: 32 word)"

definition ReleaseMipData ::
  "uint32 \<Rightarrow> FTextureEvictionParams \<Rightarrow> fault + FTextureEvictionParams" where
  "ReleaseMipData RetainMips p =
     bindF (if ReleaseStart RetainMips p < 0 then Inr (MipImageData p)
            else ReleaseLoop (Suc (nat (ReleaseStart RetainMips p))) (MipImageData p))
       (\<lambda>d. Inr (p\<lparr> MipImageData := (if RetainMips = 0 then [] else d) \<rparr>))"

text \<open>
  Modelled from the spec: \<^verbatim>\<open>FTextureEvictionParams::AreAllMipsPresent\<close> is defined in a
  header that is not part of this file. Section 4.2: true iff every slot holds non-empty
  data. Section 8 adds that after \<^verbatim>\<open>releaseMips(retainCount)\<close> it is true iff
  \<open>retainCount \<ge> mipCount\<close>, so the store that \<^verbatim>\<open>releaseMips(0)\<close> has cleared is not
  all-present: the empty store yields false.
\<close>

definition AreAllMipsPresent :: "FTextureEvictionParams \<Rightarrow> bool" where
  "AreAllMipsPresent p = (MipImageData p \<noteq> [] \<and> list_all (\<lambda>m. m \<noteq> []) (MipImageData p))"

subsection \<open>Textures, globals\<close>

datatype GLenum =
    GL_NONE | GL_TEXTURE_2D | GL_TEXTURE_2D_MULTISAMPLE | GL_TEXTURE_2D_ARRAY
  | GL_TEXTURE_3D | GL_TEXTURE_CUBE_MAP | GL_TEXTURE_CUBE_MAP_ARRAY
  | GL_TEXTURE_EXTERNAL_OES | GL_RENDERBUFFER

text \<open>The template argument of \<^verbatim>\<open>TOpenGLTexture\<close>: which of the RHI texture classes it is.\<close>

datatype RHIResourceType = RHITexture2D | RHITexture2DArray | RHITexture3D | RHITextureCube

datatype EResourceLockMode = RLM_ReadOnly | RLM_WriteOnly

text \<open>The row of \<^verbatim>\<open>GPixelFormats\<close> and of \<^verbatim>\<open>GOpenGLTextureFormats\<close> for the texture's format.\<close>

record FPixelFormatInfo =
  BlockSizeX :: uint32
  BlockSizeY :: uint32
  BlockBytes :: uint32

record FOpenGLTextureFormat =
  bCompressed :: bool
  InternalFormatIsNone :: bool   \<comment> \<open>\<^verbatim>\<open>InternalFormat[bSRGB] == GL_NONE\<close>\<close>

record FOpenGLPixelBuffer =
  PBSize :: uint32
  bIsLocked :: bool
  bIsLockReadOnly :: bool
  PBData :: bytes

text \<open>
  A texture object. \<open>bAllocatedStorage\<close> holds the (mip, face) pairs for which
  \<^verbatim>\<open>GetAllocatedStorageForMip\<close> is true. \<open>GLStorage\<close> is the driver's side of the
  texture name \<open>Resource\<close>: \<open>None\<close> while no storage is allocated, else the bytes
  held for each (mip level, array slice or face); a level nothing was uploaded to is
  absent from the map. \<open>UploadConversion\<close> is the data
  transform of \<^verbatim>\<open>Unlock\<close> on Android builds for a \<^verbatim>\<open>PF_FloatRGBA\<close> texture whose GL type
  is \<^verbatim>\<open>GL_UNSIGNED_BYTE\<close> (half floats to RGBA8, floating point and kept abstract);
  \<open>None\<close> everywhere else.
\<close>

record FOpenGLTexture =
  Flags :: uint32
  Target :: GLenum
  RHIType :: RHIResourceType
  SizeX :: uint32
  SizeY :: uint32
  SizeZ :: uint32
  EffectiveSizeZ :: uint32       \<comment> \<open>what \<^verbatim>\<open>GetEffectiveSizeZ()\<close> returns\<close>
  NumMips :: uint32
  NumSamples :: uint32
  NumSamplesTileMem :: uint32
  bCubemap :: bool
  PixelFormat :: FPixelFormatInfo
  GLFormat :: FOpenGLTextureFormat
  bDepthFormat :: bool           \<comment> \<open>the format is \<^verbatim>\<open>PF_DepthStencil\<close>, \<^verbatim>\<open>PF_ShadowDepth\<close> or \<^verbatim>\<open>PF_D24\<close>\<close>
  UploadConversion :: "(bytes \<Rightarrow> bytes) option"
  bIsAliased :: bool
  Resource :: uint32
  EvictionParamsPtr :: "FTextureEvictionParams option"
  PixelBuffers :: "FOpenGLPixelBuffer option list"
  bAllocatedStorage :: "(nat \<times> nat) set"
  GLStorage :: "(nat \<times> nat \<rightharpoonup> bytes) option"

text \<open>
  What the functions read from outside the texture: the \<^verbatim>\<open>ETextureCreateFlags\<close> bits
  (declared in a header outside this file, so taken as parameters), the console
  variables, the Android config rule, and the capabilities of the GL context.
\<close>

record RHIGlobals =
  TexCreate_RenderTargetable :: uint32
  TexCreate_ResolveTargetable :: uint32
  TexCreate_DepthStencilTargetable :: uint32
  TexCreate_ShaderResource :: uint32
  TexCreate_SRGB :: uint32
  TexCreate_CPUReadback :: uint32
  TexCreate_OfflineProcessed :: uint32
  TexCreate_Streamable :: uint32
  TexCreate_Transient :: uint32
  CVarDeferTextureCreation :: int32
  ConfigRulesCanDeferTextureCreation :: "bool option"
  SupportsCopyImage :: bool
  SupportsMultisampledTextures :: bool
  TexStorage2DSucceeds :: bool
  PLATFORM_ANDROID :: bool
  GMaxOpenGLColorSamples :: int32
  GMaxOpenGLDepthSamples :: int32
  CVarDeferTextureCreationExcludeMask :: int32
  GOGLDeferTextureCreationKeepLowerMipCount :: int32
  StaticMinTextureResidentMipCount :: int32
  GOGLTextureEvictFramesToLive :: int32
  GOGLTexturesToEvictPerFrame :: int32

text \<open>The initial value of \<^verbatim>\<open>r.OpenGL.DeferTextureCreationExcludeFlags\<close>.\<close>

definition AllowedDeferFlags :: "RHIGlobals \<Rightarrow> uint32" where
  "AllowedDeferFlags g =
     (TexCreate_ShaderResource g OR TexCreate_SRGB g OR TexCreate_Transient g
        OR TexCreate_Streamable g OR TexCreate_OfflineProcessed g)"

definition DefaultExcludeMask :: "RHIGlobals \<Rightarrow> int32" where
  "DefaultExcludeMask g = NOT (AllowedDeferFlags g)"

definition CanDeferTextureCreation :: "RHIGlobals \<Rightarrow> bool" where
  "CanDeferTextureCreation g =
     (case ConfigRulesCanDeferTextureCreation g of
        Some b \<Rightarrow> b
      | None \<Rightarrow> CVarDeferTextureCreation g \<noteq> 0)"

definition CanCreateAsEvicted :: "RHIGlobals \<Rightarrow> FOpenGLTexture \<Rightarrow> bool" where
  "CanCreateAsEvicted g t =
     (CanDeferTextureCreation g
      \<and> SupportsCopyImage g
      \<and> Flags t \<noteq> 0
      \<and> (CVarDeferTextureCreationExcludeMask g AND Flags t) = 0
      \<and> Target t = GL_TEXTURE_2D
      \<and> RHIType t = RHITexture2D)"

text \<open>
  Modelled from the spec: \<^verbatim>\<open>IsEvicted()\<close> is defined in a header that is not part of this
  file. Sections 3 and 4.5: a texture is Evicted when it has an eviction state and
  \<open>hasMaterialized\<close> (\<^verbatim>\<open>bHasRestored\<close>) is false; a texture without an eviction state
  has real storage.
\<close>

definition IsEvicted :: "FOpenGLTexture \<Rightarrow> bool" where
  "IsEvicted t =
     (case EvictionParamsPtr t of None \<Rightarrow> False | Some p \<Rightarrow> \<not> bHasRestored p)"

text \<open>
  \<^verbatim>\<open>CanBeEvicted()\<close>. The two checks come first; the result reads
  \<^verbatim>\<open>EvictionParamsPtr\<close> only when \<^verbatim>\<open>CanCreateAsEvicted()\<close> holds.
\<close>

definition CanBeEvicted :: "RHIGlobals \<Rightarrow> FOpenGLTexture \<Rightarrow> fault + bool" where
  "CanBeEvicted g t =
     (if \<not> CanCreateAsEvicted g t then Inr False
      else case EvictionParamsPtr t of
        None \<Rightarrow> Inl CheckEvictionParamsValid
      | Some p \<Rightarrow>
          if bIsAliased t
             \<and> \<not> (length (MipImageData p) = 0 \<and> length (MipImageData p) \<noteq> unat (NumMips t))
          then Inl CheckAliasedHasNoData
          else Inr (length (MipImageData p) = unat (NumMips t) \<and> AreAllMipsPresent p))"

subsection \<open>Lock and Unlock\<close>

text \<open>
  \<^verbatim>\<open>GetLockSize\<close>: the pair of \<open>MipBytes\<close> and \<open>DestStride\<close>, in unsigned 32-bit
  arithmetic. A shift by 32 or more and a division by a block size of 0 are undefined in
  C++; both are faults here.
\<close>

definition GetLockSize :: "FOpenGLTexture \<Rightarrow> uint32 \<Rightarrow> fault + (uint32 \<times> uint32)" where
  "GetLockSize t InMipIndex =
     (if \<not> unat InMipIndex < 32 then Inl ShiftTooWide
      else if BlockSizeX (PixelFormat t) = 0 \<or> BlockSizeY (PixelFormat t) = 0
        then Inl DivideByZero
      else
        let BSX = BlockSizeX (PixelFormat t);
            BSY = BlockSizeY (PixelFormat t);
            BB = BlockBytes (PixelFormat t);
            MipSizeX = max (drop_bit (unat InMipIndex) (SizeX t)) BSX;
            MipSizeY = max (drop_bit (unat InMipIndex) (SizeY t)) BSY;
            NumBlocksX = (MipSizeX + BSX - 1) div BSX;
            NumBlocksY = (MipSizeY + BSY - 1) div BSY
        in Inr (NumBlocksX * NumBlocksY * BB, NumBlocksX * BB))"

text \<open>
  What \<^verbatim>\<open>Lock\<close> returns: the address of a shadow mip slot
  (\<^verbatim>\<open>MipImageData[i].GetData()\<close>) or of the mapped memory of the pixel buffer at an index
  of \<^verbatim>\<open>PixelBuffers\<close>.
\<close>

datatype LockedPtr = ShadowMipPtr nat | PixelBufferPtr nat

text \<open>
  Modelled from the spec: \<^verbatim>\<open>FOpenGLPixelBuffer\<close>, the staging buffer of section 4.5, is
  declared outside this file. A new buffer of \<open>n\<close> bytes is unlocked and uninitialised;
  locking marks it locked, records the read-only mode and, when discarding, leaves the
  contents undefined; unlocking clears the lock.
\<close>

definition NewPixelBuffer :: "uint32 \<Rightarrow> FOpenGLPixelBuffer" where
  "NewPixelBuffer n =
     \<lparr> PBSize = n, bIsLocked = False, bIsLockReadOnly = False,
       PBData = replicate (unat n) None \<rparr>"

definition PixelBuffer_Lock :: "bool \<Rightarrow> bool \<Rightarrow> FOpenGLPixelBuffer \<Rightarrow> FOpenGLPixelBuffer" where
  "PixelBuffer_Lock bReadOnly bDiscard pb =
     pb\<lparr> bIsLocked := True, bIsLockReadOnly := bReadOnly,
         PBData := (if bDiscard then replicate (unat (PBSize pb)) None else PBData pb) \<rparr>"

definition PixelBuffer_Unlock :: "FOpenGLPixelBuffer \<Rightarrow> FOpenGLPixelBuffer" where
  "PixelBuffer_Unlock pb = pb\<lparr> bIsLocked := False \<rparr>"

text \<open>
  \<^verbatim>\<open>BufferIndex\<close>: computed in \<^verbatim>\<open>uint32\<close>, stored in an \<^verbatim>\<open>int32\<close>, and used to index
  \<^verbatim>\<open>PixelBuffers\<close>.
\<close>

definition BufferIndex :: "FOpenGLTexture \<Rightarrow> uint32 \<Rightarrow> uint32 \<Rightarrow> int" where
  "BufferIndex t MipIndex ArrayIndex =
     sint (MipIndex * (if bCubemap t then 6 else 1) * EffectiveSizeZ t + ArrayIndex)"

text \<open>
  Modelled from the spec: the driver calls are the GPU storage provider of section 6.
  \<open>DownloadMip\<close> (\<^verbatim>\<open>glGetTexImage\<close> into the bound pixel buffer) yields the bytes the level
  holds, undefined bytes where nothing was uploaded; \<open>UploadMip\<close> (the
  \<^verbatim>\<open>glTexSubImage\<close> and \<^verbatim>\<open>glCompressedTexImage\<close> family) stores them.
\<close>

definition DownloadMip :: "FOpenGLTexture \<Rightarrow> nat \<times> nat \<Rightarrow> nat \<Rightarrow> bytes" where
  "DownloadMip t lvl n =
     (case GLStorage t of
        None \<Rightarrow> replicate n None
      | Some m \<Rightarrow> (case m lvl of None \<Rightarrow> replicate n None | Some d \<Rightarrow> d))"

definition UploadMip :: "nat \<times> nat \<Rightarrow> bytes \<Rightarrow> FOpenGLTexture \<Rightarrow> FOpenGLTexture" where
  "UploadMip lvl d t =
     t\<lparr> GLStorage := Some ((case GLStorage t of None \<Rightarrow> Map.empty | Some m \<Rightarrow> m)(lvl \<mapsto> d)) \<rparr>"

text \<open>
  \<^verbatim>\<open>Resolve(MipIndex, ArrayIndex)\<close>: the texture is read back into the pixel buffer of the
  slice. Array textures fault (\<^verbatim>\<open>check(0)\<close>, reported as \<open>CheckSizeZ\<close>).
\<close>

definition Resolve :: "FOpenGLTexture \<Rightarrow> uint32 \<Rightarrow> uint32 \<Rightarrow> fault + FOpenGLTexture" where
  "Resolve t MipIndex ArrayIndex =
     bindF (GetLockSize t MipIndex) (\<lambda>(MipBytes, DestStride).
       if BufferIndex t MipIndex ArrayIndex < 0
          \<or> \<not> nat (BufferIndex t MipIndex ArrayIndex) < length (PixelBuffers t)
       then Inl RangeCheck
       else
         let bi = nat (BufferIndex t MipIndex ArrayIndex);
             pb = (case PixelBuffers t ! bi of
                     None \<Rightarrow> NewPixelBuffer MipBytes | Some b \<Rightarrow> b)
         in if PBSize pb \<noteq> MipBytes then Inl CheckPixelBufferSize
            else if bIsLocked pb then Inl CheckPixelBufferLocked
            else if SizeZ t \<noteq> 0 then Inl CheckSizeZ
            else Inr (t\<lparr> PixelBuffers := (PixelBuffers t)
                        [bi := Some (pb\<lparr> PBData :=
                           DownloadMip t (unat MipIndex, unat ArrayIndex) (unat MipBytes) \<rparr>)] \<rparr>))"

text \<open>
  \<^verbatim>\<open>Lock(InMipIndex, ArrayIndex, LockMode, DestStride)\<close>: the new texture, the pointer
  returned, and \<open>DestStride\<close>. On an evicted texture the lock mode is not read.
\<close>

definition Lock ::
  "RHIGlobals \<Rightarrow> FOpenGLTexture \<Rightarrow> uint32 \<Rightarrow> uint32 \<Rightarrow> EResourceLockMode
     \<Rightarrow> fault + (FOpenGLTexture \<times> LockedPtr \<times> uint32)" where
  "Lock g t InMipIndex ArrayIndex LockMode =
     bindF (GetLockSize t InMipIndex) (\<lambda>(MipBytes, DestStride).
       if IsEvicted t \<and> ArrayIndex \<noteq> 0 then Inl CheckArrayIndex
       else if IsEvicted t then
         (case EvictionParamsPtr t of
            None \<Rightarrow> Inl NullPointer
          | Some p \<Rightarrow>
              bindF (SetMipData InMipIndex None MipBytes p) (\<lambda>p'.
                if unat InMipIndex < length (MipImageData p')
                then Inr (t\<lparr> EvictionParamsPtr := Some p' \<rparr>,
                          ShadowMipPtr (unat InMipIndex), DestStride)
                else Inl RangeCheck))
       else if BufferIndex t InMipIndex ArrayIndex < 0
               \<or> \<not> nat (BufferIndex t InMipIndex ArrayIndex) < length (PixelBuffers t)
         then Inl RangeCheck
       else
         let bi = nat (BufferIndex t InMipIndex ArrayIndex);
             bBufferExists = (PixelBuffers t ! bi \<noteq> None);
             pb = (case PixelBuffers t ! bi of
                     None \<Rightarrow> NewPixelBuffer MipBytes | Some b \<Rightarrow> b);
             t1 = t\<lparr> PixelBuffers := (PixelBuffers t)[bi := Some pb] \<rparr>;
             bCPUTexResolved =
               (bBufferExists \<and> Flags t AND TexCreate_CPUReadback g \<noteq> 0
                \<and> Flags t AND (TexCreate_RenderTargetable g
                                 OR TexCreate_DepthStencilTargetable g) = 0)
         in if PBSize pb \<noteq> MipBytes then Inl CheckPixelBufferSize
            else if bIsLocked pb then Inl CheckPixelBufferLocked
            else
              bindF (if LockMode \<noteq> RLM_WriteOnly \<and> \<not> bCPUTexResolved
                     then Resolve t1 InMipIndex ArrayIndex else Inr t1) (\<lambda>t2.
                case PixelBuffers t2 ! bi of
                  None \<Rightarrow> Inl CheckPixelBufferValid
                | Some pb2 \<Rightarrow>
                    Inr (t2\<lparr> PixelBuffers := (PixelBuffers t2)
                            [bi := Some (PixelBuffer_Lock (LockMode = RLM_ReadOnly)
                                           (LockMode \<noteq> RLM_ReadOnly) pb2)] \<rparr>,
                         PixelBufferPtr bi, DestStride)))"

text \<open>
  \<^verbatim>\<open>FMemory::Memcpy(pDest, src, n)\<close> through a pointer \<^verbatim>\<open>Lock\<close> returned: the first
  \<open>n\<close> bytes of the addressed buffer are overwritten. A copy longer than the buffer is
  reported as a range fault.
\<close>

definition MemcpyTo :: "LockedPtr \<Rightarrow> bytes \<Rightarrow> FOpenGLTexture \<Rightarrow> fault + FOpenGLTexture" where
  "MemcpyTo ptr src t =
     (case ptr of
        PixelBufferPtr bi \<Rightarrow>
          (if \<not> bi < length (PixelBuffers t) then Inl RangeCheck
           else case PixelBuffers t ! bi of
             None \<Rightarrow> Inl NullPointer
           | Some pb \<Rightarrow>
               if length (PBData pb) < length src then Inl RangeCheck
               else Inr (t\<lparr> PixelBuffers := (PixelBuffers t)
                           [bi := Some (pb\<lparr> PBData := src @ drop (length src) (PBData pb) \<rparr>)] \<rparr>))
      | ShadowMipPtr i \<Rightarrow>
          (case EvictionParamsPtr t of
             None \<Rightarrow> Inl NullPointer
           | Some p \<Rightarrow>
               if \<not> i < length (MipImageData p) \<or> length (MipImageData p ! i) < length src
               then Inl RangeCheck
               else Inr (t\<lparr> EvictionParamsPtr := Some (p\<lparr> MipImageData := (MipImageData p)
                           [i := src @ drop (length src) (MipImageData p ! i)] \<rparr>) \<rparr>)))"

text \<open>
  \<^verbatim>\<open>Unlock(MipIndex, ArrayIndex)\<close>. An evicted texture returns at once (the \<^verbatim>\<open>ensure\<close>
  only reports). Otherwise the pixel buffer is unlocked and, unless it was locked
  read-only, uploaded; the Android conversion path uploads the converted bytes and keeps
  the pixel buffer, the standard path releases it.
\<close>

definition Unlock :: "FOpenGLTexture \<Rightarrow> uint32 \<Rightarrow> uint32 \<Rightarrow> fault + FOpenGLTexture" where
  "Unlock t MipIndex ArrayIndex =
     (if IsEvicted t then (if ArrayIndex \<noteq> 0 then Inl CheckArrayIndex else Inr t)
      else if BufferIndex t MipIndex ArrayIndex < 0
              \<or> \<not> nat (BufferIndex t MipIndex ArrayIndex) < length (PixelBuffers t)
        then Inl RangeCheck
      else
        let bi = nat (BufferIndex t MipIndex ArrayIndex);
            lvl = (unat MipIndex, unat ArrayIndex)
        in case PixelBuffers t ! bi of
          None \<Rightarrow> Inl CheckPixelBufferValid
        | Some pb \<Rightarrow>
            (case UploadConversion t of
               Some conv \<Rightarrow>
                 if SizeZ t \<noteq> 0 then Inl CheckSizeZ
                 else if lvl \<notin> bAllocatedStorage t then Inl CheckAllocatedStorage
                 else Inr (UploadMip lvl (conv (PBData pb))
                             (t\<lparr> PixelBuffers := (PixelBuffers t)
                                  [bi := Some (PixelBuffer_Unlock pb)] \<rparr>))
             | None \<Rightarrow>
                 bindF
                   (if bIsLockReadOnly pb then Inr t
                    else if SizeZ t \<noteq> 0 then Inr (UploadMip lvl (PBData pb) t)
                    else if bCompressed (GLFormat t)
                      then Inr (UploadMip lvl (PBData pb)
                                  (t\<lparr> bAllocatedStorage := insert lvl (bAllocatedStorage t) \<rparr>))
                    else if lvl \<notin> bAllocatedStorage t then Inl CheckAllocatedStorage
                    else Inr (UploadMip lvl (PBData pb) t))
                   (\<lambda>t1. Inr (t1\<lparr> PixelBuffers := (PixelBuffers t1)[bi := None] \<rparr>))))"

subsection \<open>Allocating and destroying the GL resource\<close>

text \<open>
  Modelled from the GL contract: \<^verbatim>\<open>glGenTextures\<close> and \<^verbatim>\<open>glGenRenderbuffers\<close> return an
  unused name, which is never 0. The driver's supply of names is a counter that skips 0;
  \<open>GenName\<close> yields the name and the next counter.
\<close>

definition GenName :: "uint32 \<Rightarrow> uint32 \<times> uint32" where
  "GenName n = (let k = (if n = 0 then 1 else n) in (k, k + 1))"

definition TileMemDepth :: "RHIGlobals \<Rightarrow> FOpenGLTexture \<Rightarrow> bool" where
  "TileMemDepth g t =
     (1 < NumSamplesTileMem t \<and> Flags t AND TexCreate_DepthStencilTargetable g \<noteq> 0)"

text \<open>
  The attachment point chosen by \<^verbatim>\<open>InitializeGLTextureInternal\<close> decides which sample
  limit is checked: \<open>Some True\<close> for a colour attachment, \<open>Some False\<close> for a depth or
  depth-stencil attachment, \<open>None\<close> for \<^verbatim>\<open>GL_NONE\<close>.
\<close>

definition AttachmentIsColor :: "RHIGlobals \<Rightarrow> FOpenGLTexture \<Rightarrow> bool option" where
  "AttachmentIsColor g t =
     (if Flags t AND TexCreate_RenderTargetable g \<noteq> 0 \<or> Flags t AND TexCreate_CPUReadback g \<noteq> 0
        then Some True
      else if Flags t AND TexCreate_DepthStencilTargetable g \<noteq> 0 then Some False
      else if Flags t AND TexCreate_ResolveTargetable g \<noteq> 0 then Some (\<not> bDepthFormat t)
      else None)"

text \<open>
  \<^verbatim>\<open>InitializeGLTextureInternal\<close> as \<^verbatim>\<open>RestoreEvictedGLResource\<close> and
  \<^verbatim>\<open>InitializeGLTexture\<close> call it here (no array, not external, no bulk data), reduced
  to what the texture object keeps of the driver calls. \<open>n\<close> is the driver's name
  counter. Storage is allocated with undefined contents; \<^verbatim>\<open>SetAllocatedStorage\<close> sets
  the flag of every mip at once; on the tile-memory depth path an Android build turns the
  texture into a renderbuffer with a name of its own, any other build allocates nothing.
\<close>

definition InitializeGLTextureInternal ::
  "RHIGlobals \<Rightarrow> uint32 \<Rightarrow> uint32 \<Rightarrow> FOpenGLTexture \<Rightarrow> fault + (uint32 \<times> FOpenGLTexture)" where
  "InitializeGLTextureInternal g TextureID n t =
     (let TMD = TileMemDepth g t;
          bAllocated = (NumSamples t = 1 \<and> \<not> TMD
                          \<and> Target t \<noteq> GL_TEXTURE_EXTERNAL_OES
                          \<and> (TexStorage2DSucceeds g \<or> \<not> bCompressed (GLFormat t)))
      in if TextureID = 0 \<and> \<not> TMD then Inl CheckTextureID
         else if InternalFormatIsNone (GLFormat t) then Inl FormatNotSupported
         else if NumSamples t \<noteq> 1 \<and> \<not> TMD \<and> \<not> SupportsMultisampledTextures g
           then Inl CheckMultisample
         else if (case AttachmentIsColor g t of
                    None \<Rightarrow> False
                  | Some True \<Rightarrow> sint (GMaxOpenGLColorSamples g) < sint (NumSamples t)
                  | Some False \<Rightarrow> sint (GMaxOpenGLDepthSamples g) < sint (NumSamples t))
           then Inl CheckMaxSamples
         else if TMD \<and> PLATFORM_ANDROID g
           then Inr (snd (GenName n),
                     t\<lparr> Resource := fst (GenName n), Target := GL_RENDERBUFFER,
                        bAllocatedStorage := {}, GLStorage := Some Map.empty \<rparr>)
         else Inr (n,
                   t\<lparr> Resource := TextureID,
                      bAllocatedStorage := (if bAllocated then UNIV else {}),
                      GLStorage := (if TMD then GLStorage t else Some Map.empty) \<rparr>))"

text \<open>
  \<^verbatim>\<open>InitializeGLTexture\<close> without bulk data, as \<^verbatim>\<open>TryEvictGLResource\<close> calls it: a new
  texture name (none on the tile-memory depth path), and storage only when the texture
  is not evicted.
\<close>

definition InitializeGLTexture ::
  "RHIGlobals \<Rightarrow> uint32 \<Rightarrow> FOpenGLTexture \<Rightarrow> fault + (uint32 \<times> FOpenGLTexture)" where
  "InitializeGLTexture g n t =
     (let TextureID = (if TileMemDepth g t then 0 else fst (GenName n));
          n1 = (if TileMemDepth g t then n else snd (GenName n))
      in if \<not> IsEvicted t then InitializeGLTextureInternal g TextureID n1 t
         else Inr (n1, t\<lparr> Resource := TextureID \<rparr>))"

text \<open>
  Modelled from the spec: \<^verbatim>\<open>DeleteGLResource\<close> is defined outside this file; section 4.5
  (Evict) has it destroy the GPU storage.
\<close>

definition DeleteGLResource :: "FOpenGLTexture \<Rightarrow> FOpenGLTexture" where
  "DeleteGLResource t = t\<lparr> GLStorage := None \<rparr>"

subsection \<open>The render thread's state and the LRU registry\<close>

text \<open>
  Textures live at addresses; the registry holds addresses. Modelled from the spec: the
  container behind \<^verbatim>\<open>GetLRUContainer()\<close> is declared outside this file. Section 4.3: a
  fixed-capacity LRU keyed by the texture. \<open>TextureLRU\<close> lists the members from the
  least to the most recently used, \<open>TextureLRUMax\<close> is the capacity.
\<close>

record RHIState =
  Textures :: "nat \<rightharpoonup> FOpenGLTexture"
  TextureLRU :: "nat list"
  TextureLRUMax :: nat
  GFrameNumberRenderThread :: uint32
  GLNextName :: uint32

definition SetTexture :: "nat \<Rightarrow> FOpenGLTexture \<Rightarrow> RHIState \<Rightarrow> RHIState" where
  "SetTexture this t s = s\<lparr> Textures := (Textures s)(this \<mapsto> t) \<rparr>"

text \<open>\<^verbatim>\<open>TextureBase->EvictionParamsPtr\<close>, read through the two pointers.\<close>

definition ParamsOf :: "RHIState \<Rightarrow> nat \<Rightarrow> fault + (FOpenGLTexture \<times> FTextureEvictionParams)" where
  "ParamsOf s this =
     (case Textures s this of
        None \<Rightarrow> Inl NullPointer
      | Some t \<Rightarrow> (case EvictionParamsPtr t of None \<Rightarrow> Inl NullPointer | Some p \<Rightarrow> Inr (t, p)))"

definition SetParams :: "nat \<Rightarrow> FOpenGLTexture \<Rightarrow> FTextureEvictionParams \<Rightarrow> RHIState \<Rightarrow> RHIState" where
  "SetParams this t p s = SetTexture this (t\<lparr> EvictionParamsPtr := Some p \<rparr>) s"

text \<open>\<^verbatim>\<open>FTextureEvictionLRU::Add\<close>: the state and the value returned.\<close>

definition FTextureEvictionLRU_Add :: "nat \<Rightarrow> RHIState \<Rightarrow> fault + (RHIState \<times> bool)" where
  "FTextureEvictionLRU_Add this s =
     bindF (ParamsOf s this) (\<lambda>(t, p).
       if LRUNode p \<noteq> None then Inl CheckLRUNodeInvalid
       else if this \<in> set (TextureLRU s) then Inl CheckLRUContains
       else if length (TextureLRU s) \<noteq> TextureLRUMax s
         then Inr (SetParams this t
                     (p\<lparr> LRUNode := Some this,
                         FrameLastRendered := GFrameNumberRenderThread s \<rparr>)
                     (s\<lparr> TextureLRU := TextureLRU s @ [this] \<rparr>), True)
       else Inr (s, False))"

text \<open>\<^verbatim>\<open>FTextureEvictionLRU::Touch\<close>: the member moves to the most recent end.\<close>

definition FTextureEvictionLRU_Touch :: "nat \<Rightarrow> RHIState \<Rightarrow> fault + RHIState" where
  "FTextureEvictionLRU_Touch this s =
     bindF (ParamsOf s this) (\<lambda>(t, p).
       if LRUNode p = None then Inl CheckLRUNodeValid
       else if this \<notin> set (TextureLRU s) then Inl CheckLRUContains
       else Inr (SetParams this t
                   (p\<lparr> FrameLastRendered := GFrameNumberRenderThread s \<rparr>)
                   (s\<lparr> TextureLRU := removeAll this (TextureLRU s) @ [this] \<rparr>)))"

text \<open>\<^verbatim>\<open>FTextureEvictionLRU::Remove\<close>: nothing happens without eviction data.\<close>

definition FTextureEvictionLRU_Remove :: "nat \<Rightarrow> RHIState \<Rightarrow> fault + RHIState" where
  "FTextureEvictionLRU_Remove this s =
     (case Textures s this of
        None \<Rightarrow> Inl NullPointer
      | Some t \<Rightarrow>
          (case EvictionParamsPtr t of
             None \<Rightarrow> Inr s
           | Some p \<Rightarrow>
               if (LRUNode p \<noteq> None) \<noteq> (this \<in> set (TextureLRU s)) then Inl CheckLRUContains
               else if LRUNode p \<noteq> None
                 then Inr (SetParams this t (p\<lparr> LRUNode := None \<rparr>)
                             (s\<lparr> TextureLRU := removeAll this (TextureLRU s) \<rparr>))
               else Inr s))"

subsection \<open>Restore and evict\<close>

text \<open>
  One iteration of the upload loop of \<^verbatim>\<open>RestoreEvictedGLResource\<close>, for mip \<open>i\<close>: a slot
  with data is locked write-only, copied into the pixel buffer and unlocked.
\<close>

definition RestoreMip :: "RHIGlobals \<Rightarrow> nat \<Rightarrow> FOpenGLTexture \<Rightarrow> fault + FOpenGLTexture" where
  "RestoreMip g i t =
     (case EvictionParamsPtr t of
        None \<Rightarrow> Inl NullPointer
      | Some p \<Rightarrow>
          if \<not> i < length (MipImageData p) then Inl RangeCheck
          else if MipImageData p ! i = [] then Inr t
          else
            bindF (GetLockSize t (word_of_nat i)) (\<lambda>(MipBytes, Stride0).
              if word_of_nat (length (MipImageData p ! i)) \<noteq> MipBytes then Inl CheckLockSize
              else
                bindF (Lock g t (word_of_nat i) 0 RLM_WriteOnly) (\<lambda>(t1, pDest, DestStride).
                  if DestStride = 0 then Inl CheckDestStride
                  else bindF (MemcpyTo pDest (MipImageData p ! i) t1)
                         (\<lambda>t2. Unlock t2 (word_of_nat i) 0))))"

text \<open>The loop \<^verbatim>\<open>for (int i = Num() - 1; i >= 0; i--)\<close>: \<open>RestoreMips g n\<close> runs \<open>i = n - 1, ..., 0\<close>.\<close>

fun RestoreMips :: "RHIGlobals \<Rightarrow> nat \<Rightarrow> FOpenGLTexture \<Rightarrow> fault + FOpenGLTexture" where
  "RestoreMips g 0 t = Inr t"
| "RestoreMips g (Suc i) t = bindF (RestoreMip g i t) (RestoreMips g i)"

text \<open>The number of low mips to keep, before the registry has had its say.\<close>

definition DeferTextureCreationKeepLowerMipCount :: "RHIGlobals \<Rightarrow> uint32" where
  "DeferTextureCreationKeepLowerMipCount g =
     (if 0 \<le> sint (GOGLDeferTextureCreationKeepLowerMipCount g)
      then GOGLDeferTextureCreationKeepLowerMipCount g
      else StaticMinTextureResidentMipCount g)"

definition RetainMipsOf :: "RHIGlobals \<Rightarrow> bool \<Rightarrow> FOpenGLTexture \<Rightarrow> uint32" where
  "RetainMipsOf g bAttemptToRetainMips t =
     (if bAttemptToRetainMips \<and> Flags t AND TexCreate_Streamable g \<noteq> 0
         \<and> 1 < NumMips t \<and> \<not> bIsAliased t
      then DeferTextureCreationKeepLowerMipCount g else 0)"

text \<open>
  \<^verbatim>\<open>RestoreEvictedGLResource\<close> on the texture at \<open>this\<close>, up to its call of
  \<^verbatim>\<open>CanBeEvicted()\<close>: the state after the uploads and what \<^verbatim>\<open>CanBeEvicted()\<close> returned.
\<close>

definition RestoreUpload :: "RHIGlobals \<Rightarrow> nat \<Rightarrow> RHIState \<Rightarrow> fault + (RHIState \<times> bool)" where
  "RestoreUpload g this s =
     bindF (ParamsOf s this) (\<lambda>(t, p).
       if bHasRestored p then Inl CheckAlreadyRestored
       else
         bindF (InitializeGLTextureInternal g (Resource t) (GLNextName s)
                  (t\<lparr> EvictionParamsPtr := Some (p\<lparr> bHasRestored := True \<rparr>) \<rparr>)) (\<lambda>(n1, t1).
           if length (MipImageData p) \<noteq> unat (NumMips t1) then Inl CheckMipCount
           else
             bindF (RestoreMips g (length (MipImageData p)) t1) (\<lambda>t2.
               bindF (CanBeEvicted g t2) (\<lambda>bCan.
                 Inr (SetTexture this t2 (s\<lparr> GLNextName := n1 \<rparr>), bCan)))))"

text \<open>
  \<^verbatim>\<open>RestoreEvictedGLResource(bAttemptToRetainMips)\<close>: after the uploads, a texture that
  can be evicted is added to the registry; when the registry refuses it, nothing is
  retained; then the shadow mips beyond the retained ones are released.
\<close>

definition RestoreEvictedGLResource ::
  "RHIGlobals \<Rightarrow> nat \<Rightarrow> bool \<Rightarrow> RHIState \<Rightarrow> fault + RHIState" where
  "RestoreEvictedGLResource g this bAttemptToRetainMips s =
     bindF (RestoreUpload g this s) (\<lambda>(s0, bCan).
       bindF (if bCan then FTextureEvictionLRU_Add this s0 else Inr (s0, True))
         (\<lambda>(s1, bAdded).
           bindF (ParamsOf s1 this) (\<lambda>(t3, p3).
             bindF (ReleaseMipData
                      (if bAdded then RetainMipsOf g bAttemptToRetainMips t3 else 0) p3)
               (\<lambda>p4. Inr (SetParams this t3 p4 s1)))))"

text \<open>\<^verbatim>\<open>TryEvictGLResource()\<close> on the texture at \<open>this\<close>.\<close>

definition TryEvictGLResource :: "RHIGlobals \<Rightarrow> nat \<Rightarrow> RHIState \<Rightarrow> fault + RHIState" where
  "TryEvictGLResource g this s =
     (case Textures s this of
        None \<Rightarrow> Inl NullPointer
      | Some t \<Rightarrow>
          if \<not> CanCreateAsEvicted g t then Inr s
          else
            (case EvictionParamsPtr t of
               None \<Rightarrow> Inl NullPointer
             | Some p \<Rightarrow>
                 if \<not> bHasRestored p then Inr s
                 else
                   bindF (CanBeEvicted g t) (\<lambda>bCan.
                     if \<not> bCan then Inr s
                     else
                       bindF (InitializeGLTexture g (GLNextName s)
                                ((DeleteGLResource t)
                                   \<lparr> EvictionParamsPtr := Some (p\<lparr> bHasRestored := False \<rparr>) \<rparr>))
                         (\<lambda>(n1, t1). Inr (SetTexture this t1 (s\<lparr> GLNextName := n1 \<rparr>))))))"

subsection \<open>The eviction scheduler\<close>

text \<open>
  The body of the loop of \<^verbatim>\<open>TickEviction\<close>: \<^verbatim>\<open>RemoveLeastRecent()\<close>, the reset of the
  removed texture's \<^verbatim>\<open>LRUNode\<close>, and \<^verbatim>\<open>TryEvictGLResource()\<close> on it.
\<close>

definition TickEvictionBody :: "RHIGlobals \<Rightarrow> RHIState \<Rightarrow> fault + RHIState" where
  "TickEvictionBody g s =
     (case TextureLRU s of
        [] \<Rightarrow> Inl RangeCheck
      | lr # rest \<Rightarrow>
          bindF (ParamsOf s lr) (\<lambda>(t, p).
            TryEvictGLResource g lr
              (SetParams lr t (p\<lparr> LRUNode := None \<rparr>) (s\<lparr> TextureLRU := rest \<rparr>))))"

text \<open>
  The loop condition, without the bound on the count: the registry is not empty and the
  least recent member satisfies
  \<^verbatim>\<open>FrameLastRendered + GOGLTextureEvictFramesToLive < GFrameNumberRenderThread\<close>, an
  unsigned 32-bit comparison. The member is read through its pointers.
\<close>

definition LeastRecentIsStale :: "RHIGlobals \<Rightarrow> RHIState \<Rightarrow> fault + bool" where
  "LeastRecentIsStale g s =
     (case TextureLRU s of
        [] \<Rightarrow> Inr False
      | lr # rest \<Rightarrow>
          bindF (ParamsOf s lr) (\<lambda>(t, p).
            Inr (FrameLastRendered p + GOGLTextureEvictFramesToLive g
                   < GFrameNumberRenderThread s)))"

lemma TryEvictGLResource_TextureLRU:
  "TryEvictGLResource g this s = Inr s' \<Longrightarrow> TextureLRU s' = TextureLRU s"
  by (auto simp: TryEvictGLResource_def bindF_def SetTexture_def
           split: option.splits if_splits sum.splits prod.splits)

lemma TickEvictionBody_length:
  "TickEvictionBody g s = Inr s' \<Longrightarrow> length (TextureLRU s') < length (TextureLRU s)"
  by (auto simp: TickEvictionBody_def bindF_def SetParams_def SetTexture_def
           dest!: TryEvictGLResource_TextureLRU
           split: list.splits sum.splits prod.splits)

text \<open>
  \<^verbatim>\<open>for (int32 EvictCount = 0; <stale> && EvictCount < GOGLTexturesToEvictPerFrame; EvictCount++)\<close>.
\<close>

function TickEvictionLoop :: "RHIGlobals \<Rightarrow> int32 \<Rightarrow> RHIState \<Rightarrow> fault + RHIState" where
  "TickEvictionLoop g EvictCount s =
     (case LeastRecentIsStale g s of
        Inl e \<Rightarrow> Inl e
      | Inr bStale \<Rightarrow>
          if bStale \<and> sint EvictCount < sint (GOGLTexturesToEvictPerFrame g)
          then (case TickEvictionBody g s of
                  Inl e \<Rightarrow> Inl e
                | Inr s' \<Rightarrow> TickEvictionLoop g (EvictCount + 1) s')
          else Inr s)"
  by pat_completeness auto
termination
  by (relation "measure (\<lambda>(g, c, s). length (TextureLRU s))")
     (auto dest: TickEvictionBody_length)

declare TickEvictionLoop.simps [simp del]

definition TickEviction :: "RHIGlobals \<Rightarrow> RHIState \<Rightarrow> fault + RHIState" where
  "TickEviction g s = TickEvictionLoop g 0 s"

text \<open>
  The \<^verbatim>\<open>FrameLastRendered\<close> of the texture at an address, and the staleness test of the
  loop condition for any address.
\<close>

definition FrameOf :: "RHIState \<Rightarrow> nat \<Rightarrow> uint32 option" where
  "FrameOf s a =
     (case Textures s a of
        None \<Rightarrow> None
      | Some t \<Rightarrow> map_option FrameLastRendered (EvictionParamsPtr t))"

definition StaleAt :: "RHIGlobals \<Rightarrow> RHIState \<Rightarrow> nat \<Rightarrow> bool" where
  "StaleAt g s a =
     (case FrameOf s a of
        None \<Rightarrow> False
      | Some f \<Rightarrow> f + GOGLTextureEvictFramesToLive g < GFrameNumberRenderThread s)"

text \<open>
  Every member of the registry is a live texture with eviction data that is not aliased:
  what the pointers of the registry are dereferenced for during a tick.
\<close>

definition LRUMembersValid :: "RHIState \<Rightarrow> bool" where
  "LRUMembersValid s =
     (\<forall>a \<in> set (TextureLRU s).
        case Textures s a of
          None \<Rightarrow> False
        | Some t \<Rightarrow> EvictionParamsPtr t \<noteq> None \<and> \<not> bIsAliased t)"

subsection \<open>Runs of the render thread\<close>

text \<open>
  \<^verbatim>\<open>CreateOpenGLTexture\<close> without bulk data. \<^verbatim>\<open>CreateOpenGLRHITextureOnly\<close> builds the
  object from its arguments (here the descriptor \<open>d\<close>, which has no eviction data yet)
  and attaches a fresh \<^verbatim>\<open>FTextureEvictionParams\<close> when \<^verbatim>\<open>CanCreateAsEvicted()\<close> holds;
  \<^verbatim>\<open>InitializeGLTexture\<close> follows. With bulk data, \<^verbatim>\<open>InitializeGLTexture\<close> goes on to
  call \<^verbatim>\<open>SetMipData\<close> once per mip: those calls are steps of their own below.
\<close>

definition CreateOpenGLTexture ::
  "RHIGlobals \<Rightarrow> FOpenGLTexture \<Rightarrow> uint32 \<Rightarrow> fault + (uint32 \<times> FOpenGLTexture)" where
  "CreateOpenGLTexture g d n =
     InitializeGLTexture g n
       (d\<lparr> EvictionParamsPtr :=
             (if CanCreateAsEvicted g d then Some (NewEvictionParams (NumMips d)) else None) \<rparr>)"

text \<open>
  One call into this file from the render thread. The console variables are read at
  every call, so each step has globals of its own. \<^verbatim>\<open>TryEvictGLResource\<close> is called from
  \<^verbatim>\<open>TickEviction\<close> only.
\<close>

inductive Step :: "RHIState \<Rightarrow> RHIState \<Rightarrow> bool" where
  StepCreate:
    "Textures s a = None \<Longrightarrow> EvictionParamsPtr d = None
     \<Longrightarrow> CreateOpenGLTexture g d (GLNextName s) = Inr (n, t)
     \<Longrightarrow> Step s (SetTexture a t (s\<lparr> GLNextName := n \<rparr>))"
| StepSetMipData:
    "Textures s a = Some t \<Longrightarrow> IsEvicted t \<Longrightarrow> EvictionParamsPtr t = Some p
     \<Longrightarrow> SetMipData i (Some src) n p = Inr p'
     \<Longrightarrow> Step s (SetParams a t p' s)"
| StepLock:
    "Textures s a = Some t \<Longrightarrow> Lock g t i k m = Inr (t', ptr, stride)
     \<Longrightarrow> Step s (SetTexture a t' s)"
| StepWrite:
    "Textures s a = Some t \<Longrightarrow> MemcpyTo ptr src t = Inr t'
     \<Longrightarrow> Step s (SetTexture a t' s)"
| StepUnlock:
    "Textures s a = Some t \<Longrightarrow> Unlock t i k = Inr t'
     \<Longrightarrow> Step s (SetTexture a t' s)"
| StepRestore:
    "RestoreEvictedGLResource g a b s = Inr s' \<Longrightarrow> Step s s'"
| StepTickEviction:
    "TickEviction g s = Inr s' \<Longrightarrow> Step s s'"
| StepTouch:
    "FTextureEvictionLRU_Touch a s = Inr s' \<Longrightarrow> Step s s'"
| StepRemove:
    "FTextureEvictionLRU_Remove a s = Inr s' \<Longrightarrow> Step s s'"
| StepFrame:
    "Step s (s\<lparr> GFrameNumberRenderThread := GFrameNumberRenderThread s + 1 \<rparr>)"

text \<open>The states of a run that starts with no texture and an empty registry.\<close>

inductive Reachable :: "RHIState \<Rightarrow> bool" where
  ReachableInit: "Textures s = Map.empty \<Longrightarrow> TextureLRU s = [] \<Longrightarrow> Reachable s"
| ReachableStep: "Reachable s \<Longrightarrow> Step s s' \<Longrightarrow> Reachable s'"

text \<open>The \<^verbatim>\<open>LRUNode\<close> of the texture at an address, invalid where there is none.\<close>

definition NodeOf :: "RHIState \<Rightarrow> nat \<Rightarrow> nat option" where
  "NodeOf s a =
     (case Textures s a of
        None \<Rightarrow> None
      | Some t \<Rightarrow> (case EvictionParamsPtr t of None \<Rightarrow> None | Some p \<Rightarrow> LRUNode p))"

definition RestoredAt :: "RHIState \<Rightarrow> nat \<Rightarrow> bool" where
  "RestoredAt s a =
     (case Textures s a of
        None \<Rightarrow> False
      | Some t \<Rightarrow> (case EvictionParamsPtr t of None \<Rightarrow> False | Some p \<Rightarrow> bHasRestored p))"

text \<open>The shadow store of the texture at an address, empty where there is none.\<close>

definition ShadowAt :: "RHIState \<Rightarrow> nat \<Rightarrow> bytes list" where
  "ShadowAt s a =
     (case Textures s a of
        None \<Rightarrow> []
      | Some t \<Rightarrow> (case EvictionParamsPtr t of None \<Rightarrow> [] | Some p \<Rightarrow> MipImageData p))"


subsection \<open>What the statements about runs speak of\<close>

text \<open>
  The fields of a texture that no operation after its creation changes, and the part of
  its eviction data that the registry reads: the restored flag, the node and the frame.
\<close>

definition Static :: "FOpenGLTexture \<Rightarrow> uint32 \<times> uint32 \<times> bool \<times> uint32 \<times> uint32 \<times> FPixelFormatInfo" where
  "Static t = (Flags t, NumMips t, bIsAliased t, SizeX t, SizeY t, PixelFormat t)"

definition EvKey :: "FOpenGLTexture \<Rightarrow> (bool \<times> nat option \<times> uint32) option" where
  "EvKey t = map_option (\<lambda>p. (bHasRestored p, LRUNode p, FrameLastRendered p)) (EvictionParamsPtr t)"

text \<open>
  Full residency of the texture at an address: as many slots as mips, each holding data
  (the last two conjuncts of the result of \<^verbatim>\<open>CanBeEvicted()\<close>).
\<close>

definition FullyResident :: "RHIState \<Rightarrow> nat \<Rightarrow> bool" where
  "FullyResident s a =
     (case Textures s a of
        None \<Rightarrow> False
      | Some t \<Rightarrow>
          (case EvictionParamsPtr t of
             None \<Rightarrow> False
           | Some p \<Rightarrow> length (MipImageData p) = unat (NumMips t) \<and> AreAllMipsPresent p))"

text \<open>
  The registry and the nodes agree: no member is listed twice, a texture has a valid
  \<^verbatim>\<open>LRUNode\<close> exactly when it is a member, and every member has been restored.
\<close>

definition RegistryInv :: "RHIState \<Rightarrow> bool" where
  "RegistryInv s =
     (distinct (TextureLRU s)
      \<and> (\<forall>a. (NodeOf s a \<noteq> None) = (a \<in> set (TextureLRU s)))
      \<and> (\<forall>a \<in> set (TextureLRU s). RestoredAt s a))"

text \<open>Whether the texture at an address has GPU storage.\<close>

definition HasStorage :: "RHIState \<Rightarrow> nat \<Rightarrow> bool" where
  "HasStorage s a = (case Textures s a of None \<Rightarrow> False | Some t \<Rightarrow> GLStorage t \<noteq> None)"

text \<open>
  A texture that a restore could not register: it has mips, it is restored, its shadow
  store is gone, its \<^verbatim>\<open>LRUNode\<close> is invalid and it is not a member of the registry.
\<close>

definition Dropped :: "RHIState \<Rightarrow> nat \<Rightarrow> bool" where
  "Dropped s a =
     (a \<notin> set (TextureLRU s)
      \<and> (case Textures s a of
            None \<Rightarrow> False
          | Some t \<Rightarrow>
              NumMips t \<noteq> 0
              \<and> (case EvictionParamsPtr t of
                    None \<Rightarrow> False
                  | Some p \<Rightarrow> bHasRestored p \<and> MipImageData p = [] \<and> LRUNode p = None)))"

text \<open>
  What \<^verbatim>\<open>TryEvictGLResource\<close> tests before it destroys the GL resource:
  \<^verbatim>\<open>CanCreateAsEvicted()\<close>, the restored flag and \<^verbatim>\<open>CanBeEvicted()\<close>.
\<close>

definition Evictable :: "RHIGlobals \<Rightarrow> FOpenGLTexture \<Rightarrow> bool" where
  "Evictable g t =
     (CanCreateAsEvicted g t
      \<and> (case EvictionParamsPtr t of None \<Rightarrow> False | Some p \<Rightarrow> bHasRestored p)
      \<and> CanBeEvicted g t = Inr True)"

text \<open>
  The two things a tick of the scheduler can make of a member \<open>t\<close> that it takes out of
  the registry. \<open>Unregistered t\<close>: only the \<^verbatim>\<open>LRUNode\<close> is reset. \<open>EvictedAs r t\<close>: the node
  is reset, the GPU storage is destroyed, the restored flag is cleared and the texture
  has the new GL name \<open>r\<close>; everything else, the shadow store included, is as in \<open>t\<close>.
\<close>

definition Unregistered :: "FOpenGLTexture \<Rightarrow> FOpenGLTexture" where
  "Unregistered t =
     t\<lparr> EvictionParamsPtr := map_option (\<lambda>p. p\<lparr> LRUNode := None \<rparr>) (EvictionParamsPtr t) \<rparr>"

definition EvictedAs :: "uint32 \<Rightarrow> FOpenGLTexture \<Rightarrow> FOpenGLTexture" where
  "EvictedAs r t =
     t\<lparr> GLStorage := None,
        EvictionParamsPtr := map_option (\<lambda>p. p\<lparr> LRUNode := None, bHasRestored := False \<rparr>)
                               (EvictionParamsPtr t),
        Resource := r \<rparr>"

text \<open>
  What the round trip of a texture through restore, eviction and restore is stated for.

  \<open>MipFits t i d\<close>: the slot \<open>d\<close> of mip \<open>i\<close> holds exactly the bytes that \<^verbatim>\<open>GetLockSize\<close>
  computes for that mip, at least one, with a non-zero stride: what \<^verbatim>\<open>Lock\<close> on the
  evicted texture or \<^verbatim>\<open>SetMipData\<close> with the lock size puts there, and what the checks
  of the upload loop of \<^verbatim>\<open>RestoreEvictedGLResource\<close> ask for.
\<close>

definition MipFits :: "FOpenGLTexture \<Rightarrow> nat \<Rightarrow> bytes \<Rightarrow> bool" where
  "MipFits t i d =
     (i < 32 \<and>
      (case GetLockSize t (word_of_nat i) of
         Inl e \<Rightarrow> False
       | Inr (MipBytes, DestStride) \<Rightarrow> d \<noteq> [] \<and> length d = unat MipBytes \<and> DestStride \<noteq> 0))"

text \<open>
  \<open>Uploadable g t\<close>: the texture may be created as evicted and is not aliased, and
  \<^verbatim>\<open>InitializeGLTextureInternal\<close> and the lock, copy and unlock of each mip go through
  without a fault and without changing the bytes: no tile-memory depth path, a
  supported format, one sample within the limit of its attachment, no upload
  conversion, a plain 2D texture with one pixel-buffer slot per mip, none of them in
  use.
\<close>

definition Uploadable :: "RHIGlobals \<Rightarrow> FOpenGLTexture \<Rightarrow> bool" where
  "Uploadable g t =
     (CanCreateAsEvicted g t \<and> \<not> bIsAliased t
      \<and> \<not> TileMemDepth g t \<and> \<not> InternalFormatIsNone (GLFormat t) \<and> NumSamples t = 1
      \<and> (AttachmentIsColor g t = Some True \<longrightarrow> 1 \<le> sint (GMaxOpenGLColorSamples g))
      \<and> (AttachmentIsColor g t = Some False \<longrightarrow> 1 \<le> sint (GMaxOpenGLDepthSamples g))
      \<and> UploadConversion t = None \<and> \<not> bCubemap t \<and> EffectiveSizeZ t = 1
      \<and> length (PixelBuffers t) = unat (NumMips t)
      \<and> list_all (\<lambda>b. b = None) (PixelBuffers t))"

text \<open>
  \<open>FullRetention g t\<close>: the conditions under which \<^verbatim>\<open>RestoreEvictedGLResource(true)\<close>
  computes a \<^verbatim>\<open>RetainMips\<close> that covers every mip: the texture is streamable and has more
  than one mip (it is not aliased by \<open>Uploadable\<close>), and the keep-lower-mip count is at
  least the mip count (and below \<open>2^31\<close>, as a count taken from a non-negative \<^verbatim>\<open>int32\<close> is).
\<close>

definition FullRetention :: "RHIGlobals \<Rightarrow> FOpenGLTexture \<Rightarrow> bool" where
  "FullRetention g t =
     (Flags t AND TexCreate_Streamable g \<noteq> 0 \<and> 1 < NumMips t
      \<and> unat (NumMips t) \<le> unat (DeferTextureCreationKeepLowerMipCount g)
      \<and> unat (DeferTextureCreationKeepLowerMipCount g) < 2 ^ 31)"

subsection \<open>Concrete instances\<close>

text \<open>
  Globals for the examples: every creation flag is a single bit of its own (the bit
  positions are those of the engine's enumeration, which is declared outside this file;
  no theorem depends on them), deferred creation is switched on, the exclusion mask has
  its initial value, all mips are kept (16), and the eviction settings are the initial
  500 frames and 10 textures per frame.
\<close>

definition ExGlobals :: RHIGlobals where
  "ExGlobals =
     \<lparr> TexCreate_RenderTargetable = 1, TexCreate_ResolveTargetable = 2,
       TexCreate_DepthStencilTargetable = 4, TexCreate_ShaderResource = 8,
       TexCreate_SRGB = 16, TexCreate_CPUReadback = 0x40000,
       TexCreate_OfflineProcessed = 0x80000, TexCreate_Streamable = 0x8000000,
       TexCreate_Transient = 0x80000000,
       CVarDeferTextureCreation = 1, ConfigRulesCanDeferTextureCreation = None,
       SupportsCopyImage = True, SupportsMultisampledTextures = True,
       TexStorage2DSucceeds = True, PLATFORM_ANDROID = False,
       GMaxOpenGLColorSamples = 2, GMaxOpenGLDepthSamples = 2,
       CVarDeferTextureCreationExcludeMask = NOT (8 OR 16 OR 0x80000000 OR 0x8000000 OR 0x80000),
       GOGLDeferTextureCreationKeepLowerMipCount = 16,
       StaticMinTextureResidentMipCount = 7,
       GOGLTextureEvictFramesToLive = 500, GOGLTexturesToEvictPerFrame = 10 \<rparr>"

text \<open>
  A 2 x 2 texture of one byte per pixel with two mips (4 bytes and 1 byte), created as
  evicted, with both mips written. \<open>ExTexture f\<close> has the creation flags \<open>f\<close>.
\<close>

definition ExMips :: "bytes list" where
  "ExMips = [[Some 10, Some 11, Some 12, Some 13], [Some 20]]"

definition ExTexture :: "uint32 \<Rightarrow> FOpenGLTexture" where
  "ExTexture f =
     \<lparr> Flags = f, Target = GL_TEXTURE_2D, RHIType = RHITexture2D,
       SizeX = 2, SizeY = 2, SizeZ = 0, EffectiveSizeZ = 1, NumMips = 2,
       NumSamples = 1, NumSamplesTileMem = 1, bCubemap = False,
       PixelFormat = \<lparr> BlockSizeX = 1, BlockSizeY = 1, BlockBytes = 1 \<rparr>,
       GLFormat = \<lparr> bCompressed = False, InternalFormatIsNone = False \<rparr>,
       bDepthFormat = False, UploadConversion = None, bIsAliased = False, Resource = 1,
       EvictionParamsPtr = Some \<lparr> MipImageData = ExMips, bHasRestored = False,
                                  LRUNode = None, FrameLastRendered = 0 \<rparr>,
       PixelBuffers = [None, None], bAllocatedStorage = {}, GLStorage = None \<rparr>"

text \<open>A state holding \<open>ExTexture f\<close> at address 0, at frame \<open>fr\<close>, with registry capacity \<open>cap\<close>.\<close>

definition ExState :: "uint32 \<Rightarrow> nat \<Rightarrow> uint32 \<Rightarrow> RHIState" where
  "ExState f cap fr =
     \<lparr> Textures = [0 \<mapsto> ExTexture f], TextureLRU = [], TextureLRUMax = cap,
       GFrameNumberRenderThread = fr, GLNextName = 2 \<rparr>"

text \<open>
  The state \<open>ExState 0x8000000 2 0\<close> (a streamable texture) after its texture has been
  restored at frame 0, at the later frame \<open>fr\<close>: both mips are uploaded, both are retained
  in the shadow store, and the texture is the one member of the registry.
\<close>

definition ExRegistered :: "uint32 \<Rightarrow> RHIState" where
  "ExRegistered fr =
     \<lparr> Textures = [0 \<mapsto> (ExTexture 0x8000000)
          \<lparr> EvictionParamsPtr := Some \<lparr> MipImageData = ExMips, bHasRestored = True,
                                      LRUNode = Some 0, FrameLastRendered = 0 \<rparr>,
            bAllocatedStorage := UNIV,
            GLStorage := Some [(1, 0) \<mapsto> [Some 20],
                               (0, 0) \<mapsto> [Some 10, Some 11, Some 12, Some 13]] \<rparr>],
       TextureLRU = [0], TextureLRUMax = 2,
       GFrameNumberRenderThread = fr, GLNextName = 2 \<rparr>"

text \<open>The same texture with both slots still empty, as right after creation.\<close>

definition ExEmptyTexture :: "uint32 \<Rightarrow> FOpenGLTexture" where
  "ExEmptyTexture f = (ExTexture f)\<lparr> EvictionParamsPtr := Some (NewEvictionParams 2) \<rparr>"

text \<open>
  The run that leads to \<open>ExState f cap 0\<close>: from \<open>ExInit cap\<close> the texture is created from the
  descriptor \<open>ExDescriptor f\<close>, then mip 1 is set from \<open>ExSource1\<close> and mip 0 from
  \<open>ExSource0\<close>.
\<close>

definition ExInit :: "nat \<Rightarrow> RHIState" where
  "ExInit cap = \<lparr> Textures = Map.empty, TextureLRU = [], TextureLRUMax = cap,
                  GFrameNumberRenderThread = 0, GLNextName = 1 \<rparr>"

definition ExDescriptor :: "uint32 \<Rightarrow> FOpenGLTexture" where
  "ExDescriptor f = (ExTexture f)\<lparr> EvictionParamsPtr := None, Resource := 0 \<rparr>"

definition ExSource0 :: "nat \<Rightarrow> uint8" where
  "ExSource0 k = 10 + word_of_nat k"

definition ExSource1 :: "nat \<Rightarrow> uint8" where
  "ExSource1 k = 20"


section \<open>Properties of the shadow mip store\<close>

lemma ReleaseLoop_eq:
  "n \<le> length xs \<Longrightarrow> ReleaseLoop n xs = Inr (replicate n [] @ drop n xs)"
proof (induction n arbitrary: xs)
  case 0
  then show ?case by simp
next
  case (Suc n)
  have "replicate n [] @ drop n (xs[n := []]) = replicate (Suc n) [] @ drop (Suc n) xs"
    using Suc.prems
    by (simp add: replicate_append_same Cons_nth_drop_Suc[symmetric] upd_conv_take_nth_drop)
  with Suc show ?case by simp
qed

lemma uint_lt_of_unat_lt: "unat (w :: 32 word) < 2 ^ 31 \<Longrightarrow> uint w < 2 ^ 31"
  by (metis of_nat_less_numeral_power_cancel_iff of_nat_unat)

lemma sint_word_of_int_32:
  "- (2 ^ 31) \<le> x \<Longrightarrow> x < 2 ^ 31 \<Longrightarrow> sint (word_of_int x :: 32 word) = x"
  by (simp add: sint_sbintrunc' signed_take_bit_int_eq_self)

lemma ReleaseStart_eq:
  assumes "unat R < 2 ^ 31" "length (MipImageData p) < 2 ^ 31"
  shows "ReleaseStart R p = int (length (MipImageData p)) - 1 - int (unat R)"
proof -
  let ?x = "int (length (MipImageData p)) - 1 - uint R"
  have eq: "(word_of_nat (length (MipImageData p)) - 1 - R :: 32 word) = word_of_int ?x"
    by simp
  have r: "uint R < 2 ^ 31" using assms(1) by (rule uint_lt_of_unat_lt)
  have r0: "0 \<le> uint R" by (rule uint_nonnegative)
  have n: "int (length (MipImageData p)) < 2 ^ 31" using assms(2) by simp
  have lo: "- (2 ^ 31) \<le> ?x" using r by simp
  have hi: "?x < 2 ^ 31" using n r0 by linarith
  have "ReleaseStart R p = ?x"
    unfolding ReleaseStart_def eq using lo hi by (rule sint_word_of_int_32)
  then show ?thesis unfolding uint_nat .
qed

text \<open>
  Claim C7, as amended. \<^verbatim>\<open>ReleaseMipData(RetainMips)\<close> empties exactly the slots with an
  index in \<open>[0, mipCount - RetainMips)\<close>, that is the indices \<open>0\<close> to
  \<open>mipCount - 1 - RetainMips\<close> inclusive, and leaves the \<open>RetainMips\<close> slots of lowest
  resolution as they were; with \<open>RetainMips = 0\<close> the whole array is removed. Both
  counts are below \<open>2^31\<close>, as an \<^verbatim>\<open>int32\<close> array length and a retain count taken from a
  non-negative \<^verbatim>\<open>int32\<close> are. (The claim's half-open range \<open>[0, mipCount-1-RetainMips)\<close>
  stops one slot short.)
\<close>

theorem ReleaseMipData_frees_all_but_retained:
  assumes "unat RetainMips < 2 ^ 31" and "length (MipImageData p) < 2 ^ 31"
  shows "ReleaseMipData RetainMips p =
           Inr (p\<lparr> MipImageData :=
                  (if RetainMips = 0 then []
                   else replicate (length (MipImageData p) - unat RetainMips) []
                        @ drop (length (MipImageData p) - unat RetainMips) (MipImageData p)) \<rparr>)"
proof (cases "ReleaseStart RetainMips p < 0")
  case True
  then have "length (MipImageData p) \<le> unat RetainMips"
    unfolding ReleaseStart_eq[OF assms] by linarith
  with True show ?thesis by (simp add: ReleaseMipData_def bindF_def)
next
  case False
  then have n: "Suc (nat (ReleaseStart RetainMips p)) = length (MipImageData p) - unat RetainMips"
    unfolding ReleaseStart_eq[OF assms] by linarith
  have "length (MipImageData p) - unat RetainMips \<le> length (MipImageData p)" by linarith
  from ReleaseLoop_eq[OF this]
  have loop: "ReleaseLoop (Suc (nat (ReleaseStart RetainMips p))) (MipImageData p) =
      Inr (replicate (length (MipImageData p) - unat RetainMips) []
           @ drop (length (MipImageData p) - unat RetainMips) (MipImageData p))"
    unfolding n .
  show ?thesis
    unfolding ReleaseMipData_def loop using False by (simp add: bindF_def)
qed

text \<open>Four mips, one retained: the slots 0, 1 and 2 are emptied, slot 3 is kept.\<close>

theorem ReleaseMipData_witness:
  "ReleaseMipData 1 \<lparr> MipImageData = [[Some 1], [Some 2], [Some 3], [Some 4]],
                        bHasRestored = True, LRUNode = None, FrameLastRendered = 0 \<rparr>
     = Inr \<lparr> MipImageData = [[], [], [], [Some 4]],
              bHasRestored = True, LRUNode = None, FrameLastRendered = 0 \<rparr>"
  using ReleaseMipData_frees_all_but_retained
    [of 1 "\<lparr> MipImageData = [[Some 1], [Some 2], [Some 3], [Some 4]],
              bHasRestored = True, LRUNode = None, FrameLastRendered = 0 \<rparr>"]
  by simp

lemma ReleaseLoop_3: "ReleaseLoop 3 [a, b, c, d] = Inr [[], [], [], d]"
  by (simp add: eval_nat_numeral)

text \<open>
  The claim as stated fails there: slot 2 is emptied, and 2 is not in
  \<open>[0, 4 - 1 - 1)\<close>.
\<close>

theorem ReleaseMipData_half_open_counterexample:
  "ReleaseMipData 1 \<lparr> MipImageData = [[Some 1], [Some 2], [Some 3], [Some 4]],
                        bHasRestored = True, LRUNode = None, FrameLastRendered = 0 \<rparr>
     = Inr \<lparr> MipImageData = [[], [], [], [Some 4]],
              bHasRestored = True, LRUNode = None, FrameLastRendered = 0 \<rparr>
   \<and> \<not> (2 :: nat) < 4 - 1 - 1"
  by (simp add: ReleaseMipData_def ReleaseStart_def bindF_def ReleaseLoop_3)

text \<open>
  Claim C8. A \<^verbatim>\<open>SetMipData\<close> on a slot that holds data faults; a call that returns found
  the slot empty, leaves in it a buffer of exactly \<open>Bytes\<close> bytes that holds the source
  bytes when the pointer is not null, leaves the other slots alone, and makes every
  further \<^verbatim>\<open>SetMipData\<close> on that slot fault; and a call on an empty slot does return
  when \<open>Bytes\<close> is not 0 (\<^verbatim>\<open>checkf(Bytes, ...)\<close> rejects a count of 0).
\<close>

theorem SetMipData_write_once:
  "(unat MipIndex < length (MipImageData p) \<and> MipImageData p ! unat MipIndex \<noteq> []
      \<longrightarrow> (\<exists>e. SetMipData MipIndex Data Bytes' p = Inl e))
   \<and> (\<forall>p1. SetMipData MipIndex Data Bytes' p = Inr p1 \<longrightarrow>
          MipImageData p ! unat MipIndex = []
          \<and> length (MipImageData p1) = length (MipImageData p)
          \<and> length (MipImageData p1 ! unat MipIndex) = unat Bytes'
          \<and> (\<forall>src. Data = Some src \<longrightarrow>
                (\<forall>k < unat Bytes'. MipImageData p1 ! unat MipIndex ! k = Some (src k)))
          \<and> (\<forall>j < length (MipImageData p). j \<noteq> unat MipIndex \<longrightarrow>
                MipImageData p1 ! j = MipImageData p ! j)
          \<and> (\<forall>Data2 Bytes2. \<exists>e. SetMipData MipIndex Data2 Bytes2 p1 = Inl e))
   \<and> (unat MipIndex < length (MipImageData p) \<and> MipImageData p ! unat MipIndex = []
        \<and> Bytes' \<noteq> 0 \<longrightarrow> (\<exists>p1. SetMipData MipIndex Data Bytes' p = Inr p1))"
  by (auto simp: SetMipData_def MemcpyFrom_def unat_eq_0 split: if_splits option.splits)

theorem SetMipData_witness:
  "SetMipData 0 (Some (\<lambda>k. 7)) 2 (NewEvictionParams 1)
     = Inr \<lparr> MipImageData = [[Some 7, Some 7]], bHasRestored = False,
              LRUNode = None, FrameLastRendered = 0 \<rparr>
   \<and> SetMipData 0 None 2 \<lparr> MipImageData = [[Some 7, Some 7]], bHasRestored = False,
              LRUNode = None, FrameLastRendered = 0 \<rparr> = Inl CheckNoEntry"
  using SetMipData_write_once [of 0 "NewEvictionParams 1" "Some (\<lambda>k. 7)" 2]
  by (simp add: SetMipData_def MemcpyFrom_def NewEvictionParams_def upt_rec)

section \<open>Properties of the eligibility predicates\<close>

lemma mask_disjoint_iff: "(NOT a AND f = 0) \<longleftrightarrow> (f AND a = f)" for a f :: "32 word"
  by (auto simp: bit_eq_iff bit_and_iff bit_not_iff)

text \<open>
  Claim C3. \<^verbatim>\<open>CanBeEvicted()\<close> returns true only if \<^verbatim>\<open>CanCreateAsEvicted()\<close> holds, the
  shadow store has exactly \<open>NumMips\<close> slots and each of them holds data, and the texture
  is not aliased; an aliased texture is never reported evictable. (For an aliased
  texture it is the \<^verbatim>\<open>check\<close> of the function that stands in the way.)
\<close>

theorem CanBeEvicted_only_if:
  "(CanBeEvicted g t = Inr True \<longrightarrow>
      CanCreateAsEvicted g t \<and> \<not> bIsAliased t
      \<and> (\<exists>p. EvictionParamsPtr t = Some p
             \<and> length (MipImageData p) = unat (NumMips t)
             \<and> (\<forall>i < unat (NumMips t). MipImageData p ! i \<noteq> [])))
   \<and> (bIsAliased t \<longrightarrow> CanBeEvicted g t \<noteq> Inr True)"
  by (auto simp: CanBeEvicted_def AreAllMipsPresent_def list_all_length
           split: option.splits if_splits)

theorem CanBeEvicted_witness:
  "CanBeEvicted ExGlobals (ExTexture 0x8000000) = Inr True
   \<and> CanCreateAsEvicted ExGlobals (ExTexture 0x8000000)
   \<and> \<not> bIsAliased (ExTexture 0x8000000)
   \<and> CanBeEvicted ExGlobals ((ExTexture 0x8000000)\<lparr> bIsAliased := True \<rparr>)
       = Inl CheckAliasedHasNoData"
  using CanBeEvicted_only_if [of ExGlobals "ExTexture 0x8000000"]
        CanBeEvicted_only_if [of ExGlobals "(ExTexture 0x8000000)\<lparr> bIsAliased := True \<rparr>"]
  by (simp add: CanBeEvicted_def CanCreateAsEvicted_def CanDeferTextureCreation_def
        AreAllMipsPresent_def ExGlobals_def ExTexture_def ExMips_def)

text \<open>
  Claim C4, as amended. \<^verbatim>\<open>CanCreateAsEvicted()\<close> returns true only if deferred creation
  is enabled, the context supports the copy operation, the creation flags are disjoint
  from the configured exclusion mask, and the texture is exactly 2D. Under the initial
  mask, the complement of shader-resource, SRGB, transient, streamable and
  offline-processed, it returns true exactly when in addition the flags are not empty
  and all lie among those five: these five flags do not exclude a texture, every other
  flag (render-targetable for one) does.
\<close>

theorem CanCreateAsEvicted_only_if:
  "(CanCreateAsEvicted g t \<longrightarrow>
      CanDeferTextureCreation g \<and> SupportsCopyImage g
      \<and> CVarDeferTextureCreationExcludeMask g AND Flags t = 0
      \<and> Target t = GL_TEXTURE_2D \<and> RHIType t = RHITexture2D)
   \<and> (CVarDeferTextureCreationExcludeMask g = DefaultExcludeMask g \<longrightarrow>
        CanCreateAsEvicted g t =
          (CanDeferTextureCreation g \<and> SupportsCopyImage g
           \<and> Flags t \<noteq> 0 \<and> Flags t AND AllowedDeferFlags g = Flags t
           \<and> Target t = GL_TEXTURE_2D \<and> RHIType t = RHITexture2D))"
  by (auto simp: CanCreateAsEvicted_def DefaultExcludeMask_def mask_disjoint_iff)

text \<open>A streamable texture may be deferred, a render-targetable one may not.\<close>

theorem CanCreateAsEvicted_witness:
  "CanCreateAsEvicted ExGlobals (ExTexture 0x8000000)
   \<and> CanDeferTextureCreation ExGlobals \<and> SupportsCopyImage ExGlobals
   \<and> Flags (ExTexture 0x8000000) AND AllowedDeferFlags ExGlobals = Flags (ExTexture 0x8000000)
   \<and> \<not> CanCreateAsEvicted ExGlobals (ExTexture 1)"
  using CanCreateAsEvicted_only_if [of ExGlobals "ExTexture 0x8000000"]
        CanCreateAsEvicted_only_if [of ExGlobals "ExTexture 1"]
  by (simp add: CanDeferTextureCreation_def DefaultExcludeMask_def
        AllowedDeferFlags_def ExGlobals_def ExTexture_def)

text \<open>
  The claim as stated fails under the initial mask: a texture created with the SRGB
  flag is not excluded from deferral.
\<close>

theorem CanCreateAsEvicted_SRGB_counterexample:
  "CVarDeferTextureCreationExcludeMask ExGlobals = DefaultExcludeMask ExGlobals
   \<and> Flags (ExTexture 16) AND TexCreate_SRGB ExGlobals \<noteq> 0
   \<and> CanCreateAsEvicted ExGlobals (ExTexture 16)"
  by (simp add: CanCreateAsEvicted_def CanDeferTextureCreation_def DefaultExcludeMask_def
        AllowedDeferFlags_def ExGlobals_def ExTexture_def)

section \<open>Locking an evicted texture\<close>

text \<open>On an evicted texture \<^verbatim>\<open>Lock\<close> is \<^verbatim>\<open>SetMipData\<close> with a null source.\<close>

lemma Lock_evicted:
  assumes "IsEvicted t"
  shows "Lock g t i k m =
     bindF (GetLockSize t i) (\<lambda>(MipBytes, DestStride).
       if k \<noteq> 0 then Inl CheckArrayIndex
       else (case EvictionParamsPtr t of
            None \<Rightarrow> Inl NullPointer
          | Some p \<Rightarrow>
              bindF (SetMipData i None MipBytes p) (\<lambda>p'.
                Inr (t\<lparr> EvictionParamsPtr := Some p' \<rparr>, ShadowMipPtr (unat i), DestStride))))"
  using assms
  by (auto simp: Lock_def bindF_def SetMipData_def
           split: sum.splits option.splits prod.splits if_splits)



lemma GetLockSize_ExEmpty0: "GetLockSize (ExEmptyTexture f) 0 = Inr (4, 2)"
  by (simp add: GetLockSize_def ExEmptyTexture_def ExTexture_def Let_def)

lemma GetLockSize_ExEmpty1: "GetLockSize (ExEmptyTexture f) 1 = Inr (1, 1)"
  by (simp add: GetLockSize_def ExEmptyTexture_def ExTexture_def Let_def drop_bit_eq_div)

lemma replicate_2_Nil: "replicate 2 [] = [[], []]"
  by (simp add: numeral_2_eq_2)

lemma replicate_4: "replicate 4 x = [x, x, x, x]"
  by (simp add: eval_nat_numeral)

lemma IsEvicted_ExEmpty: "IsEvicted (ExEmptyTexture f)"
  by (simp add: IsEvicted_def ExEmptyTexture_def NewEvictionParams_def)

lemma IsEvicted_Ex: "IsEvicted (ExTexture f)"
  by (simp add: IsEvicted_def ExTexture_def)

lemma Lock_ExEmpty1:
  "Lock ExGlobals (ExEmptyTexture 8) 1 0 m
       = Inr ((ExEmptyTexture 8)\<lparr> EvictionParamsPtr :=
                 Some \<lparr> MipImageData = [[], [None]], bHasRestored = False,
                        LRUNode = None, FrameLastRendered = 0 \<rparr> \<rparr>,
              ShadowMipPtr 1, 1)"
  by (simp add: Lock_evicted IsEvicted_ExEmpty GetLockSize_ExEmpty1 bindF_def)
     (simp add: ExEmptyTexture_def SetMipData_def NewEvictionParams_def replicate_2_Nil bindF_def)

lemma Lock_ExEmpty0:
  "Lock ExGlobals (ExEmptyTexture 8) 0 0 m
       = Inr ((ExEmptyTexture 8)\<lparr> EvictionParamsPtr :=
                 Some \<lparr> MipImageData = [[None, None, None, None], []], bHasRestored = False,
                        LRUNode = None, FrameLastRendered = 0 \<rparr> \<rparr>,
              ShadowMipPtr 0, 2)"
  by (simp add: Lock_evicted IsEvicted_ExEmpty GetLockSize_ExEmpty0 bindF_def)
     (simp add: ExEmptyTexture_def SetMipData_def NewEvictionParams_def replicate_2_Nil
        replicate_4 bindF_def)

text \<open>
  Claim C9. A \<^verbatim>\<open>Lock\<close> that returns on an evicted texture changes nothing but the
  shadow store: the texture is still evicted (\<^verbatim>\<open>bHasRestored\<close> is unchanged), its GL
  name, GPU storage and pixel buffers are untouched, and the pointer returned addresses
  the shadow slot of the mip. \<^verbatim>\<open>Unlock\<close> on an evicted texture changes nothing at all.
\<close>

theorem Lock_evicted_no_restore:
  "IsEvicted t \<Longrightarrow>
     (\<forall>t' ptr stride. Lock g t i k m = Inr (t', ptr, stride) \<longrightarrow>
        (\<exists>p p'. EvictionParamsPtr t = Some p
           \<and> t' = t\<lparr> EvictionParamsPtr := Some p' \<rparr>
           \<and> bHasRestored p' = bHasRestored p \<and> LRUNode p' = LRUNode p
           \<and> FrameLastRendered p' = FrameLastRendered p
           \<and> IsEvicted t' \<and> GLStorage t' = GLStorage t \<and> Resource t' = Resource t
           \<and> PixelBuffers t' = PixelBuffers t
           \<and> ptr = ShadowMipPtr (unat i) \<and> unat i < length (MipImageData p')))
     \<and> (\<forall>t'. Unlock t i k = Inr t' \<longrightarrow> t' = t)"
  by (auto simp: Lock_evicted bindF_def SetMipData_def IsEvicted_def Unlock_def
           split: sum.splits option.splits prod.splits if_splits)

theorem Lock_evicted_no_restore_witness:
  "IsEvicted (ExEmptyTexture 8)
   \<and> Lock ExGlobals (ExEmptyTexture 8) 1 0 RLM_ReadOnly
       = Inr ((ExEmptyTexture 8)\<lparr> EvictionParamsPtr :=
                 Some \<lparr> MipImageData = [[], [None]], bHasRestored = False,
                        LRUNode = None, FrameLastRendered = 0 \<rparr> \<rparr>,
              ShadowMipPtr 1, 1)
   \<and> Unlock (ExEmptyTexture 8) 1 0 = Inr (ExEmptyTexture 8)"
proof -
  note th = Lock_evicted_no_restore
    [of "ExEmptyTexture 8" ExGlobals 1 0 RLM_ReadOnly, OF IsEvicted_ExEmpty]
  from th have u: "\<forall>t'. Unlock (ExEmptyTexture 8) 1 0 = Inr t' \<longrightarrow> t' = ExEmptyTexture 8"
    by blast
  have "\<exists>t'. Unlock (ExEmptyTexture 8) 1 0 = Inr t'"
    by (simp add: Unlock_def IsEvicted_ExEmpty)
  with u have "Unlock (ExEmptyTexture 8) 1 0 = Inr (ExEmptyTexture 8)" by auto
  then show ?thesis using IsEvicted_ExEmpty Lock_ExEmpty1 by simp
qed

text \<open>
  Claim C10. On an evicted texture, whatever the lock mode: a \<^verbatim>\<open>Lock\<close> that returns found
  the slot of the mip empty, leaves in it a buffer of \<open>MipBytes\<close> uninitialised bytes
  (\<open>MipBytes\<close> as \<^verbatim>\<open>GetLockSize\<close> computes it) and returns its address; a \<^verbatim>\<open>Lock\<close> on a slot
  that holds data faults; a \<^verbatim>\<open>Lock\<close> with array index 0 on an empty slot of the store
  returns whenever \<open>MipBytes\<close> is defined and not 0; and the read-only and the write-only
  lock do the same.
\<close>

theorem Lock_evicted_fresh_buffer:
  "IsEvicted t \<Longrightarrow>
     (\<forall>t' ptr stride. Lock g t i k m = Inr (t', ptr, stride) \<longrightarrow>
        (\<exists>p p' MipBytes. EvictionParamsPtr t = Some p \<and> EvictionParamsPtr t' = Some p'
           \<and> GetLockSize t i = Inr (MipBytes, stride)
           \<and> MipImageData p ! unat i = []
           \<and> MipImageData p' ! unat i = replicate (unat MipBytes) None
           \<and> ptr = ShadowMipPtr (unat i)))
     \<and> (\<forall>p. EvictionParamsPtr t = Some p \<and> unat i < length (MipImageData p)
              \<and> MipImageData p ! unat i \<noteq> [] \<longrightarrow> (\<exists>e. Lock g t i k m = Inl e))
     \<and> (\<forall>p MipBytes stride.
            EvictionParamsPtr t = Some p \<and> unat i < length (MipImageData p)
            \<and> MipImageData p ! unat i = [] \<and> k = 0
            \<and> GetLockSize t i = Inr (MipBytes, stride) \<and> MipBytes \<noteq> 0
            \<longrightarrow> (\<exists>t'. Lock g t i k m = Inr (t', ShadowMipPtr (unat i), stride)))
     \<and> Lock g t i k RLM_ReadOnly = Lock g t i k RLM_WriteOnly"
  by (auto simp: Lock_evicted bindF_def SetMipData_def
           split: sum.splits option.splits prod.splits if_splits)

theorem Lock_evicted_fresh_buffer_witness:
  "IsEvicted (ExTexture 8)
   \<and> Lock ExGlobals (ExEmptyTexture 8) 0 0 RLM_ReadOnly
       = Inr ((ExEmptyTexture 8)\<lparr> EvictionParamsPtr :=
                 Some \<lparr> MipImageData = [[None, None, None, None], []], bHasRestored = False,
                        LRUNode = None, FrameLastRendered = 0 \<rparr> \<rparr>,
              ShadowMipPtr 0, 2)
   \<and> (\<exists>e. Lock ExGlobals (ExTexture 8) 0 0 RLM_ReadOnly = Inl e)"
proof -
  note th = Lock_evicted_fresh_buffer
    [of "ExTexture 8" ExGlobals 0 0 RLM_ReadOnly, OF IsEvicted_Ex]
  have "EvictionParamsPtr (ExTexture 8)
          = Some \<lparr> MipImageData = ExMips, bHasRestored = False,
                   LRUNode = None, FrameLastRendered = 0 \<rparr>
        \<and> unat (0 :: uint32)
            < length (MipImageData \<lparr> MipImageData = ExMips, bHasRestored = False,
                                     LRUNode = None, FrameLastRendered = 0 \<rparr>)
        \<and> MipImageData \<lparr> MipImageData = ExMips, bHasRestored = False,
                           LRUNode = None, FrameLastRendered = 0 \<rparr> ! unat (0 :: uint32) \<noteq> []"
    by (simp add: ExTexture_def ExMips_def)
  with th have "\<exists>e. Lock ExGlobals (ExTexture 8) 0 0 RLM_ReadOnly = Inl e"
    by blast
  then show ?thesis using IsEvicted_Ex Lock_ExEmpty0 by simp
qed

section \<open>Properties of the eviction scheduler\<close>

lemma TryEvictGLResource_cases:
  assumes "TryEvictGLResource g a s = Inr s'"
  shows "s' = s
         \<or> (\<exists>t p r. Textures s a = Some t \<and> EvictionParamsPtr t = Some p
               \<and> bHasRestored p \<and> CanBeEvicted g t = Inr True
               \<and> Textures s' = (Textures s)(a \<mapsto>
                        t\<lparr> GLStorage := None,
                            EvictionParamsPtr := Some (p\<lparr> bHasRestored := False \<rparr>),
                            Resource := r \<rparr>)
               \<and> TextureLRU s' = TextureLRU s \<and> TextureLRUMax s' = TextureLRUMax s
               \<and> GFrameNumberRenderThread s' = GFrameNumberRenderThread s)"
  using assms
  by (auto simp: TryEvictGLResource_def bindF_def InitializeGLTexture_def IsEvicted_def
                 DeleteGLResource_def Let_def SetTexture_def
           split: option.splits if_splits sum.splits)

lemma TryEvictGLResource_frame:
  assumes "TryEvictGLResource g a s = Inr s'"
  shows "FrameOf s' b = FrameOf s b"
    and "GFrameNumberRenderThread s' = GFrameNumberRenderThread s"
  using TryEvictGLResource_cases[OF assms]
  by (auto simp: FrameOf_def)

lemma TickEvictionBody_effect:
  assumes "TickEvictionBody g s = Inr s'"
  shows "TextureLRU s \<noteq> [] \<and> TextureLRU s' = tl (TextureLRU s)
         \<and> (\<forall>b. FrameOf s' b = FrameOf s b)
         \<and> GFrameNumberRenderThread s' = GFrameNumberRenderThread s"
proof -
  from assms obtain lr rest t p where
    lru: "TextureLRU s = lr # rest" and tp: "Textures s lr = Some t" "EvictionParamsPtr t = Some p"
    and ev: "TryEvictGLResource g lr
               (SetParams lr t (p\<lparr> LRUNode := None \<rparr>) (s\<lparr> TextureLRU := rest \<rparr>)) = Inr s'"
    by (auto simp: TickEvictionBody_def bindF_def ParamsOf_def
             split: list.splits sum.splits prod.splits option.splits)
  let ?s1 = "SetParams lr t (p\<lparr> LRUNode := None \<rparr>) (s\<lparr> TextureLRU := rest \<rparr>)"
  have f1: "FrameOf ?s1 b = FrameOf s b" for b
    using tp by (simp add: FrameOf_def SetParams_def SetTexture_def)
  have g1: "GFrameNumberRenderThread ?s1 = GFrameNumberRenderThread s"
    and l1: "TextureLRU ?s1 = rest"
    by (simp_all add: SetParams_def SetTexture_def)
  show ?thesis
    using TryEvictGLResource_frame[OF ev] TryEvictGLResource_TextureLRU[OF ev] f1 g1 l1 lru
    by simp
qed

lemma LeastRecentIsStale_iff:
  assumes "LeastRecentIsStale g s = Inr b"
  shows "b \<longleftrightarrow> TextureLRU s \<noteq> [] \<and> StaleAt g s (hd (TextureLRU s))"
  using assms
  by (auto simp: LeastRecentIsStale_def StaleAt_def FrameOf_def bindF_def ParamsOf_def
           split: list.splits option.splits sum.splits)

lemma StaleAt_cong:
  "(\<forall>b. FrameOf s' b = FrameOf s b) \<Longrightarrow>
   GFrameNumberRenderThread s' = GFrameNumberRenderThread s \<Longrightarrow> StaleAt g s' a = StaleAt g s a"
  by (simp add: StaleAt_def split: option.splits)

lemma sint_succ:
  assumes "sint (c :: 32 word) < sint (m :: 32 word)"
  shows "sint (c + 1) = sint c + 1"
proof -
  have "sint m < 2 ^ 31" using sint_lt[of m] by simp
  moreover have "- (2 ^ 31) \<le> sint c" using sint_ge[of c] by simp
  ultimately have b: "- (2 ^ 31) \<le> sint c + 1" "sint c + 1 < 2 ^ 31" using assms by linarith+
  have "c + 1 = word_of_int (sint c + 1)" by simp
  then show ?thesis using sint_word_of_int_32[OF b] by simp
qed

lemma TickEvictionLoop_removes:
  "TickEvictionLoop g c s = Inr s' \<Longrightarrow>
   \<exists>ev. TextureLRU s = ev @ TextureLRU s'
      \<and> (\<forall>a \<in> set ev. StaleAt g s a)
      \<and> sint c + int (length ev) \<le> max (sint c) (sint (GOGLTexturesToEvictPerFrame g))
      \<and> (TextureLRU s' = [] \<or> \<not> StaleAt g s (hd (TextureLRU s'))
          \<or> sint (GOGLTexturesToEvictPerFrame g) \<le> sint c + int (length ev))
      \<and> (\<forall>b. FrameOf s' b = FrameOf s b)
      \<and> GFrameNumberRenderThread s' = GFrameNumberRenderThread s"
proof (induction g c s rule: TickEvictionLoop.induct)
  case (1 g c s)
  from "1.prems" obtain bStale where st: "LeastRecentIsStale g s = Inr bStale"
    by (subst (asm) TickEvictionLoop.simps) (auto split: sum.splits)
  show ?case
  proof (cases "bStale \<and> sint c < sint (GOGLTexturesToEvictPerFrame g)")
    case False
    then have "s' = s" using "1.prems" st
      by (subst (asm) TickEvictionLoop.simps) (auto split: sum.splits)
    then show ?thesis using False LeastRecentIsStale_iff[OF st]
      by (intro exI[of _ "[]"]) auto
  next
    case True
    with "1.prems" st obtain s1 where
      body: "TickEvictionBody g s = Inr s1" and rest: "TickEvictionLoop g (c + 1) s1 = Inr s'"
      by (subst (asm) TickEvictionLoop.simps) (auto split: sum.splits)
    from "1.IH"[OF st True body rest] obtain ev where
      ev: "TextureLRU s1 = ev @ TextureLRU s'"
          "\<forall>a \<in> set ev. StaleAt g s1 a"
          "sint (c + 1) + int (length ev) \<le> max (sint (c + 1)) (sint (GOGLTexturesToEvictPerFrame g))"
          "TextureLRU s' = [] \<or> \<not> StaleAt g s1 (hd (TextureLRU s'))
             \<or> sint (GOGLTexturesToEvictPerFrame g) \<le> sint (c + 1) + int (length ev)"
          "\<forall>b. FrameOf s' b = FrameOf s1 b"
          "GFrameNumberRenderThread s' = GFrameNumberRenderThread s1"
      by blast
    note eff = TickEvictionBody_effect[OF body]
    have cong: "StaleAt g s1 a = StaleAt g s a" for a
      using eff by (intro StaleAt_cong) auto
    have sc: "sint (c + 1) = sint c + 1" using True by (intro sint_succ) auto
    from eff obtain lr where lr: "TextureLRU s = lr # TextureLRU s1"
      by (cases "TextureLRU s") auto
    have stale: "StaleAt g s lr" using LeastRecentIsStale_iff[OF st] True lr by simp
    have app: "TextureLRU s = (lr # ev) @ TextureLRU s'" using lr ev(1) by simp
    have st': "\<forall>a \<in> set (lr # ev). StaleAt g s a" using stale ev(2) cong by simp
    have le: "sint c + int (length (lr # ev))
                \<le> max (sint c) (sint (GOGLTexturesToEvictPerFrame g))"
      using ev(3) True unfolding sc by (simp add: algebra_simps)
    have stop: "TextureLRU s' = [] \<or> \<not> StaleAt g s (hd (TextureLRU s'))
          \<or> sint (GOGLTexturesToEvictPerFrame g) \<le> sint c + int (length (lr # ev))"
      using ev(4) unfolding sc cong by (simp add: algebra_simps)
    have fr: "\<forall>b. FrameOf s' b = FrameOf s b" using ev(5) eff by simp
    have gf: "GFrameNumberRenderThread s' = GFrameNumberRenderThread s" using ev(6) eff by simp
    from app st' le stop fr gf show ?thesis by blast
  qed
qed


lemma TickEvictionBody_node:
  assumes "TickEvictionBody g s = Inr s'"
  shows "NodeOf s' (hd (TextureLRU s)) = None \<and> (\<forall>b. NodeOf s b = None \<longrightarrow> NodeOf s' b = None)"
proof -
  from assms obtain lr rest t p where
    lru: "TextureLRU s = lr # rest" and tp: "Textures s lr = Some t" "EvictionParamsPtr t = Some p"
    and ev: "TryEvictGLResource g lr
               (SetParams lr t (p\<lparr> LRUNode := None \<rparr>) (s\<lparr> TextureLRU := rest \<rparr>)) = Inr s'"
    by (auto simp: TickEvictionBody_def bindF_def ParamsOf_def
             split: list.splits sum.splits prod.splits option.splits)
  let ?s1 = "SetParams lr t (p\<lparr> LRUNode := None \<rparr>) (s\<lparr> TextureLRU := rest \<rparr>)"
  have n1: "NodeOf ?s1 b = (if b = lr then None else NodeOf s b)" for b
    by (simp add: NodeOf_def SetParams_def SetTexture_def)
  have n2: "NodeOf s' b = NodeOf ?s1 b" for b
    using TryEvictGLResource_cases[OF ev] by (auto simp: NodeOf_def)
  show ?thesis using lru by (simp add: n1 n2)
qed

lemma TickEvictionLoop_nodes:
  "TickEvictionLoop g c s = Inr s' \<Longrightarrow>
   (\<forall>b. NodeOf s b = None \<longrightarrow> NodeOf s' b = None)
   \<and> (\<forall>a \<in> set (take (length (TextureLRU s) - length (TextureLRU s')) (TextureLRU s)).
         NodeOf s' a = None)"
proof (induction g c s rule: TickEvictionLoop.induct)
  case (1 g c s)
  from "1.prems" obtain bStale where st: "LeastRecentIsStale g s = Inr bStale"
    by (subst (asm) TickEvictionLoop.simps) (auto split: sum.splits)
  show ?case
  proof (cases "bStale \<and> sint c < sint (GOGLTexturesToEvictPerFrame g)")
    case False
    then have "s' = s" using "1.prems" st
      by (subst (asm) TickEvictionLoop.simps) (auto split: sum.splits)
    then show ?thesis by simp
  next
    case True
    with "1.prems" st obtain s1 where
      body: "TickEvictionBody g s = Inr s1" and rest: "TickEvictionLoop g (c + 1) s1 = Inr s'"
      by (subst (asm) TickEvictionLoop.simps) (auto split: sum.splits)
    note ih = "1.IH"[OF st True body rest]
    note nd = TickEvictionBody_node[OF body]
    note eff = TickEvictionBody_effect[OF body]
    from eff obtain lr where lr: "TextureLRU s = lr # TextureLRU s1"
      by (cases "TextureLRU s") auto
    from TickEvictionLoop_removes[OF rest] obtain ev where ev: "TextureLRU s1 = ev @ TextureLRU s'"
      by blast
    have tk: "take (length (TextureLRU s) - length (TextureLRU s')) (TextureLRU s)
                = lr # take (length (TextureLRU s1) - length (TextureLRU s')) (TextureLRU s1)"
      using lr ev by simp
    have a: "\<forall>b. NodeOf s b = None \<longrightarrow> NodeOf s' b = None" using ih nd by blast
    have "NodeOf s1 lr = None" using nd lr by simp
    then have b: "NodeOf s' lr = None" using ih by blast
    show ?thesis unfolding tk using a b ih by simp
  qed
qed

lemma LRUMembersValid_body:
  assumes "LRUMembersValid s" "TextureLRU s \<noteq> []"
  shows "\<exists>s1. TickEvictionBody g s = Inr s1 \<and> LRUMembersValid s1"
proof -
  from assms obtain lr rest where lru: "TextureLRU s = lr # rest" by (cases "TextureLRU s") auto
  with assms(1) obtain t p where tp: "Textures s lr = Some t" "EvictionParamsPtr t = Some p"
      "\<not> bIsAliased t"
    by (auto simp: LRUMembersValid_def split: option.splits)
  let ?t1 = "t\<lparr> EvictionParamsPtr := Some (p\<lparr> LRUNode := None \<rparr>) \<rparr>"
  let ?s1 = "SetParams lr t (p\<lparr> LRUNode := None \<rparr>) (s\<lparr> TextureLRU := rest \<rparr>)"
  have v1: "LRUMembersValid ?s1"
    using assms(1) lru tp by (auto simp: LRUMembersValid_def SetParams_def SetTexture_def
                                   split: option.splits)
  have can: "\<exists>b. CanBeEvicted g ?t1 = Inr b"
    using tp by (auto simp: CanBeEvicted_def)
  have "\<exists>s2. TryEvictGLResource g lr ?s1 = Inr s2"
    using can
    by (auto simp: TryEvictGLResource_def SetParams_def SetTexture_def bindF_def
                   InitializeGLTexture_def IsEvicted_def DeleteGLResource_def Let_def)
  then obtain s2 where s2: "TryEvictGLResource g lr ?s1 = Inr s2" by blast
  have "LRUMembersValid s2"
    using TryEvictGLResource_cases[OF s2] v1
    by (auto simp: LRUMembersValid_def split: option.splits if_splits)
  moreover have "TickEvictionBody g s = Inr s2"
    using lru tp s2 by (simp add: TickEvictionBody_def ParamsOf_def bindF_def)
  ultimately show ?thesis by blast
qed

lemma LRUMembersValid_stale: "LRUMembersValid s \<Longrightarrow> \<exists>b. LeastRecentIsStale g s = Inr b"
  by (auto simp: LRUMembersValid_def LeastRecentIsStale_def ParamsOf_def bindF_def
           split: list.splits option.splits)

lemma TickEvictionLoop_total:
  "LRUMembersValid s \<Longrightarrow> \<exists>s'. TickEvictionLoop g c s = Inr s'"
proof (induction g c s rule: TickEvictionLoop.induct)
  case (1 g c s)
  from LRUMembersValid_stale[OF "1.prems"] obtain bStale where
    st: "LeastRecentIsStale g s = Inr bStale" by blast
  show ?case
  proof (cases "bStale \<and> sint c < sint (GOGLTexturesToEvictPerFrame g)")
    case False
    then show ?thesis using st by (subst TickEvictionLoop.simps) auto
  next
    case True
    then have "TextureLRU s \<noteq> []" using LeastRecentIsStale_iff[OF st] by simp
    from LRUMembersValid_body[OF "1.prems" this] obtain s1 where
      body: "TickEvictionBody g s = Inr s1" and v: "LRUMembersValid s1" by blast
    from "1.IH"[OF st True body v] obtain s' where "TickEvictionLoop g (c + 1) s1 = Inr s'"
      by blast
    then show ?thesis using st True body by (subst TickEvictionLoop.simps) auto
  qed
qed

lemma StaleAt_age:
  assumes "StaleAt g s a" and "FrameOf s a = Some f"
    and "unat f + unat (GOGLTextureEvictFramesToLive g) < 2 ^ 32"
  shows "unat (GOGLTextureEvictFramesToLive g) < unat (GFrameNumberRenderThread s) - unat f"
proof -
  have "unat (f + GOGLTextureEvictFramesToLive g) = unat f + unat (GOGLTextureEvictFramesToLive g)"
  proof (rule unat_add_lem[THEN iffD1])
    show "unat f + unat (GOGLTextureEvictFramesToLive g) < 2 ^ LENGTH(32)"
      using assms(3) by simp
  qed
  moreover have "f + GOGLTextureEvictFramesToLive g < GFrameNumberRenderThread s"
    using assms(1,2) by (simp add: StaleAt_def)
  ultimately show ?thesis by (simp add: word_less_nat_alt)
qed

lemma Evictable_Unregistered [simp]: "Evictable g (Unregistered t) = Evictable g t"
  by (cases "EvictionParamsPtr t")
     (simp_all add: Evictable_def Unregistered_def CanBeEvicted_def CanCreateAsEvicted_def
        AreAllMipsPresent_def)

lemma Evictable_EvictedAs [simp]: "\<not> Evictable g (EvictedAs r t)"
  by (cases "EvictionParamsPtr t") (simp_all add: Evictable_def EvictedAs_def)

lemma Unregistered_idem [simp]:
  "Unregistered (Unregistered t) = Unregistered t"
  "Unregistered (EvictedAs r t) = EvictedAs r t"
  by (cases "EvictionParamsPtr t"; simp add: Unregistered_def EvictedAs_def)+

lemma TryEvictGLResource_texture:
  assumes "TryEvictGLResource g a s = Inr s'" "Textures s a = Some t"
  shows "(\<forall>b. b \<noteq> a \<longrightarrow> Textures s' b = Textures s b)
         \<and> (if Evictable g t
             then \<exists>r. Textures s' a = Some (t\<lparr> GLStorage := None,
                        EvictionParamsPtr := map_option (\<lambda>p. p\<lparr> bHasRestored := False \<rparr>)
                                               (EvictionParamsPtr t),
                        Resource := r \<rparr>)
             else Textures s' a = Some t)"
  using assms
  by (auto simp: TryEvictGLResource_def bindF_def InitializeGLTexture_def IsEvicted_def
                 DeleteGLResource_def Let_def SetTexture_def Evictable_def
           split: option.splits if_splits sum.splits)

lemma TickEvictionBody_texture:
  assumes "TickEvictionBody g s = Inr s'"
  shows "\<exists>lr t. TextureLRU s = lr # TextureLRU s' \<and> Textures s lr = Some t
           \<and> (\<forall>b. b \<noteq> lr \<longrightarrow> Textures s' b = Textures s b)
           \<and> (if Evictable g t then \<exists>r. Textures s' lr = Some (EvictedAs r t)
               else Textures s' lr = Some (Unregistered t))"
proof -
  from assms obtain lr rest t p where
    lru: "TextureLRU s = lr # rest" and tp: "Textures s lr = Some t" "EvictionParamsPtr t = Some p"
    and ev: "TryEvictGLResource g lr
               (SetParams lr t (p\<lparr> LRUNode := None \<rparr>) (s\<lparr> TextureLRU := rest \<rparr>)) = Inr s'"
    by (auto simp: TickEvictionBody_def bindF_def ParamsOf_def
             split: list.splits sum.splits prod.splits option.splits)
  let ?s1 = "SetParams lr t (p\<lparr> LRUNode := None \<rparr>) (s\<lparr> TextureLRU := rest \<rparr>)"
  have u: "Unregistered t = t\<lparr> EvictionParamsPtr := Some (p\<lparr> LRUNode := None \<rparr>) \<rparr>"
    using tp by (simp add: Unregistered_def)
  have t1: "Textures ?s1 lr = Some (Unregistered t)"
    by (simp add: SetParams_def SetTexture_def u)
  have o1: "b \<noteq> lr \<Longrightarrow> Textures ?s1 b = Textures s b" for b
    by (simp add: SetParams_def SetTexture_def)
  have l: "TextureLRU s' = rest"
    using TryEvictGLResource_TextureLRU[OF ev] by (simp add: SetParams_def SetTexture_def)
  note e = TryEvictGLResource_texture[OF ev t1]
  have "if Evictable g t then \<exists>r. Textures s' lr = Some (EvictedAs r t)
        else Textures s' lr = Some (Unregistered t)"
  proof (cases "Evictable g t")
    case True
    with e obtain r where "Textures s' lr = Some ((Unregistered t)\<lparr> GLStorage := None,
                        EvictionParamsPtr := map_option (\<lambda>p. p\<lparr> bHasRestored := False \<rparr>)
                                               (EvictionParamsPtr (Unregistered t)),
                        Resource := r \<rparr>)" by auto
    moreover have "(Unregistered t)\<lparr> GLStorage := None,
                        EvictionParamsPtr := map_option (\<lambda>p. p\<lparr> bHasRestored := False \<rparr>)
                                               (EvictionParamsPtr (Unregistered t)),
                        Resource := r \<rparr> = EvictedAs r t"
      using tp by (simp add: Unregistered_def EvictedAs_def)
    ultimately show ?thesis using True by auto
  next
    case False
    then show ?thesis using e by simp
  qed
  with lru tp l e o1 show ?thesis by auto
qed

lemma TickEvictionLoop_textures:
  "TickEvictionLoop g c s = Inr s' \<Longrightarrow>
   \<exists>ev. TextureLRU s = ev @ TextureLRU s'
     \<and> (\<forall>b. b \<notin> set ev \<longrightarrow> Textures s' b = Textures s b)
     \<and> (\<forall>a \<in> set ev. \<exists>t. Textures s a = Some t
           \<and> (if Evictable g t then \<exists>r. Textures s' a = Some (EvictedAs r t)
               else Textures s' a = Some (Unregistered t)))"
proof (induction g c s rule: TickEvictionLoop.induct)
  case (1 g c s)
  from "1.prems" obtain bStale where st: "LeastRecentIsStale g s = Inr bStale"
    by (subst (asm) TickEvictionLoop.simps) (auto split: sum.splits)
  show ?case
  proof (cases "bStale \<and> sint c < sint (GOGLTexturesToEvictPerFrame g)")
    case False
    then have "s' = s" using "1.prems" st
      by (subst (asm) TickEvictionLoop.simps) (auto split: sum.splits)
    then show ?thesis by (intro exI[of _ "[]"]) simp
  next
    case True
    with "1.prems" st obtain s1 where
      body: "TickEvictionBody g s = Inr s1" and rest: "TickEvictionLoop g (c + 1) s1 = Inr s'"
      by (subst (asm) TickEvictionLoop.simps) (auto split: sum.splits)
    from "1.IH"[OF st True body rest] obtain ev where
      ev: "TextureLRU s1 = ev @ TextureLRU s'"
          "\<forall>b. b \<notin> set ev \<longrightarrow> Textures s' b = Textures s1 b"
          "\<forall>a \<in> set ev. \<exists>t. Textures s1 a = Some t
           \<and> (if Evictable g t then \<exists>r. Textures s' a = Some (EvictedAs r t)
               else Textures s' a = Some (Unregistered t))"
      by blast
    from TickEvictionBody_texture[OF body] obtain lr t where
      b: "TextureLRU s = lr # TextureLRU s1" "Textures s lr = Some t"
         "\<forall>b. b \<noteq> lr \<longrightarrow> Textures s1 b = Textures s b"
         "if Evictable g t then \<exists>r. Textures s1 lr = Some (EvictedAs r t)
          else Textures s1 lr = Some (Unregistered t)"
      by blast
    have app: "TextureLRU s = (lr # ev) @ TextureLRU s'" using b(1) ev(1) by simp
    have oth: "\<forall>b. b \<notin> set (lr # ev) \<longrightarrow> Textures s' b = Textures s b"
      using ev(2) b(3) by simp
    have mem: "\<exists>t. Textures s a = Some t
           \<and> (if Evictable g t then \<exists>r. Textures s' a = Some (EvictedAs r t)
               else Textures s' a = Some (Unregistered t))" if a: "a \<in> set (lr # ev)" for a
    proof (cases "a = lr")
      case False
      then have "a \<in> set ev" using a by simp
      with ev(3) obtain t1 where
        "Textures s1 a = Some t1"
        "if Evictable g t1 then \<exists>r. Textures s' a = Some (EvictedAs r t1)
         else Textures s' a = Some (Unregistered t1)"
        by blast
      moreover have "Textures s1 a = Textures s a" using b(3) False by simp
      ultimately show ?thesis by auto
    next
      case True
      show ?thesis
      proof (cases "lr \<in> set ev")
        case False
        then have "Textures s' lr = Textures s1 lr" using ev(2) by simp
        with b(2,4) True show ?thesis by simp
      next
        case in_ev: True
        with ev(3) obtain t1 where
          t1: "Textures s1 lr = Some t1"
              "if Evictable g t1 then \<exists>r. Textures s' lr = Some (EvictedAs r t1)
               else Textures s' lr = Some (Unregistered t1)"
          by blast
        show ?thesis
        proof (cases "Evictable g t")
          case True
          with b(4) t1(1) obtain r where "t1 = EvictedAs r t" by auto
          with t1(2) have "Textures s' lr = Some (EvictedAs r t)" by simp
          with b(2) True \<open>a = lr\<close> show ?thesis by auto
        next
          case False
          with b(4) t1(1) have "t1 = Unregistered t" by auto
          with t1(2) False have "Textures s' lr = Some (Unregistered t)" by simp
          with b(2) False \<open>a = lr\<close> show ?thesis by auto
        qed
      qed
    qed
    from app oth mem show ?thesis by blast
  qed
qed

text \<open>
  Claim C2, as amended. A tick of the scheduler returns whenever every member of the
  registry is a live, unaliased texture with eviction data. When it returns:

  \<^item> the members it took out of the registry are a prefix \<open>ev\<close> of the least-recent-first
    order, and there are at most \<open>maxEvictionsPerFrame\<close> of them;
  \<^item> each of them satisfied \<open>lastTouchedFrame + evictionAgeThresholdFrames < currentFrame\<close>
    in unsigned 32-bit arithmetic (\<open>StaleAt\<close>); when that sum does not wrap around
    \<open>2^32\<close> this is an age \<open>currentFrame - lastTouchedFrame\<close> strictly above the threshold
    (when it wraps, a younger member can be taken);
  \<^item> each of them has had its \<^verbatim>\<open>LRUNode\<close> reset and has gone through
    \<^verbatim>\<open>TryEvictGLResource\<close>: a member that passes the tests of that function is evicted
    (its GPU storage is destroyed, its restored flag cleared, it has a new GL name), any
    other member is only unregistered;
  \<^item> every other texture, the members left in the registry among them, is exactly as it
    was, so it keeps its GPU storage;
  \<^item> the tick stopped because the registry was empty, or its least recent member was not
    stale, or the budget was used up.

  (The claim's \<open>\<ge>\<close> is \<open><\<close> on the sum, hence \<open>>\<close> on the age, in the code.)
\<close>

theorem TickEviction_policy:
  "(LRUMembersValid s \<longrightarrow> (\<exists>s'. TickEviction g s = Inr s'))
   \<and> (\<forall>s'. TickEviction g s = Inr s' \<longrightarrow>
        (\<exists>ev. TextureLRU s = ev @ TextureLRU s'
           \<and> int (length ev) \<le> max 0 (sint (GOGLTexturesToEvictPerFrame g))
           \<and> (\<forall>a \<in> set ev. StaleAt g s a \<and> NodeOf s' a = None
                 \<and> (\<exists>t. Textures s a = Some t
                        \<and> (if Evictable g t then \<exists>r. Textures s' a = Some (EvictedAs r t)
                            else Textures s' a = Some (Unregistered t)))
                 \<and> (\<forall>f. FrameOf s a = Some f
                          \<and> unat f + unat (GOGLTextureEvictFramesToLive g) < 2 ^ 32
                       \<longrightarrow> unat (GOGLTextureEvictFramesToLive g)
                             < unat (GFrameNumberRenderThread s) - unat f))
           \<and> (\<forall>b. b \<notin> set ev \<longrightarrow> Textures s' b = Textures s b)
           \<and> (TextureLRU s' = [] \<or> \<not> StaleAt g s (hd (TextureLRU s'))
               \<or> sint (GOGLTexturesToEvictPerFrame g) \<le> int (length ev))))"
proof (intro conjI impI allI)
  assume "LRUMembersValid s"
  then show "\<exists>s'. TickEviction g s = Inr s'"
    unfolding TickEviction_def by (rule TickEvictionLoop_total)
next
  fix s'
  assume "TickEviction g s = Inr s'"
  then have run: "TickEvictionLoop g 0 s = Inr s'" by (simp add: TickEviction_def)
  from TickEvictionLoop_removes[OF run] obtain ev where
    ev: "TextureLRU s = ev @ TextureLRU s'" "\<forall>a \<in> set ev. StaleAt g s a"
        "sint (0 :: 32 word) + int (length ev)
           \<le> max (sint (0 :: 32 word)) (sint (GOGLTexturesToEvictPerFrame g))"
        "TextureLRU s' = [] \<or> \<not> StaleAt g s (hd (TextureLRU s'))
          \<or> sint (GOGLTexturesToEvictPerFrame g) \<le> sint (0 :: 32 word) + int (length ev)"
    by blast
  from TickEvictionLoop_textures[OF run] obtain ev' where
    ev': "TextureLRU s = ev' @ TextureLRU s'"
         "\<forall>b. b \<notin> set ev' \<longrightarrow> Textures s' b = Textures s b"
         "\<forall>a \<in> set ev'. \<exists>t. Textures s a = Some t
           \<and> (if Evictable g t then \<exists>r. Textures s' a = Some (EvictedAs r t)
               else Textures s' a = Some (Unregistered t))"
    by blast
  have same: "ev' = ev" using ev(1) ev'(1) by simp
  have tk: "take (length (TextureLRU s) - length (TextureLRU s')) (TextureLRU s) = ev"
    using ev(1) by simp
  have nodes: "\<forall>a \<in> set ev. NodeOf s' a = None"
    using TickEvictionLoop_nodes[OF run] unfolding tk by blast
  have le: "int (length ev) \<le> max 0 (sint (GOGLTexturesToEvictPerFrame g))" using ev(3) by simp
  have stop: "TextureLRU s' = [] \<or> \<not> StaleAt g s (hd (TextureLRU s'))
          \<or> sint (GOGLTexturesToEvictPerFrame g) \<le> int (length ev)"
    using ev(4) by simp
  have age: "\<forall>a \<in> set ev. \<forall>f. FrameOf s a = Some f
                          \<and> unat f + unat (GOGLTextureEvictFramesToLive g) < 2 ^ 32
                       \<longrightarrow> unat (GOGLTextureEvictFramesToLive g)
                             < unat (GFrameNumberRenderThread s) - unat f"
    using ev(2) StaleAt_age by blast
  have mem: "\<forall>a \<in> set ev. StaleAt g s a \<and> NodeOf s' a = None
                 \<and> (\<exists>t. Textures s a = Some t
                        \<and> (if Evictable g t then \<exists>r. Textures s' a = Some (EvictedAs r t)
                            else Textures s' a = Some (Unregistered t)))
                 \<and> (\<forall>f. FrameOf s a = Some f
                          \<and> unat f + unat (GOGLTextureEvictFramesToLive g) < 2 ^ 32
                       \<longrightarrow> unat (GOGLTextureEvictFramesToLive g)
                             < unat (GFrameNumberRenderThread s) - unat f)"
    using ev(2) nodes age ev'(3) unfolding same by blast
  have oth: "\<forall>b. b \<notin> set ev \<longrightarrow> Textures s' b = Textures s b"
    using ev'(2) unfolding same .
  from ev(1) le mem oth stop
  show "\<exists>ev. TextureLRU s = ev @ TextureLRU s'
           \<and> int (length ev) \<le> max 0 (sint (GOGLTexturesToEvictPerFrame g))
           \<and> (\<forall>a \<in> set ev. StaleAt g s a \<and> NodeOf s' a = None
                 \<and> (\<exists>t. Textures s a = Some t
                        \<and> (if Evictable g t then \<exists>r. Textures s' a = Some (EvictedAs r t)
                            else Textures s' a = Some (Unregistered t)))
                 \<and> (\<forall>f. FrameOf s a = Some f
                          \<and> unat f + unat (GOGLTextureEvictFramesToLive g) < 2 ^ 32
                       \<longrightarrow> unat (GOGLTextureEvictFramesToLive g)
                             < unat (GFrameNumberRenderThread s) - unat f))
           \<and> (\<forall>b. b \<notin> set ev \<longrightarrow> Textures s' b = Textures s b)
           \<and> (TextureLRU s' = [] \<or> \<not> StaleAt g s (hd (TextureLRU s'))
               \<or> sint (GOGLTexturesToEvictPerFrame g) \<le> int (length ev))"
    by blast
qed

lemma ExRegistered_fields:
  "TextureLRU (ExRegistered fr) = [0]"
  "GFrameNumberRenderThread (ExRegistered fr) = fr"
  "FrameOf (ExRegistered fr) 0 = Some 0"
  "LRUMembersValid (ExRegistered fr)"
  by (simp_all add: ExRegistered_def FrameOf_def LRUMembersValid_def ExTexture_def)

lemma StaleAt_ExRegistered: "StaleAt ExGlobals (ExRegistered fr) 0 \<longleftrightarrow> 500 < fr"
  by (simp add: StaleAt_def ExRegistered_fields ExGlobals_def)

lemma Evictable_ExRegistered:
  "\<exists>t. Textures (ExRegistered fr) 0 = Some t \<and> Evictable ExGlobals t"
  by (simp add: ExRegistered_def ExTexture_def ExGlobals_def ExMips_def Evictable_def
        CanBeEvicted_def CanCreateAsEvicted_def CanDeferTextureCreation_def AreAllMipsPresent_def)

lemma EvictedAs_lost:
  assumes "Textures s a = Some (EvictedAs r t)" "EvictionParamsPtr t \<noteq> None"
  shows "\<not> RestoredAt s a \<and> \<not> HasStorage s a \<and> NodeOf s a = None"
  using assms by (auto simp: RestoredAt_def HasStorage_def NodeOf_def EvictedAs_def)

text \<open>
  Last touched at frame 0, ticked at frame 501: the texture, restored and with GPU
  storage before the tick, leaves the registry and is evicted; its shadow store is kept.
\<close>

theorem TickEviction_policy_witness:
  "LRUMembersValid (ExRegistered 501)
   \<and> RestoredAt (ExRegistered 501) 0 \<and> HasStorage (ExRegistered 501) 0
   \<and> (\<exists>s'. TickEviction ExGlobals (ExRegistered 501) = Inr s'
           \<and> TextureLRU s' = [] \<and> NodeOf s' 0 = None
           \<and> \<not> RestoredAt s' 0 \<and> \<not> HasStorage s' 0
           \<and> ShadowAt s' 0 = ExMips)"
proof -
  note th = TickEviction_policy [of "ExRegistered 501" ExGlobals]
  from th ExRegistered_fields(4) obtain s' where
    run: "TickEviction ExGlobals (ExRegistered 501) = Inr s'" by blast
  with th obtain ev where
    ev: "TextureLRU (ExRegistered 501) = ev @ TextureLRU s'"
        "\<forall>a \<in> set ev. NodeOf s' a = None
            \<and> (\<exists>t. Textures (ExRegistered 501) a = Some t
                        \<and> (if Evictable ExGlobals t then \<exists>r. Textures s' a = Some (EvictedAs r t)
                            else Textures s' a = Some (Unregistered t)))"
        "TextureLRU s' = [] \<or> \<not> StaleAt ExGlobals (ExRegistered 501) (hd (TextureLRU s'))
          \<or> sint (GOGLTexturesToEvictPerFrame ExGlobals) \<le> int (length ev)"
    by blast
  have len: "length ev \<le> 1" using ev(1) by (simp add: ExRegistered_fields)
         (metis length_append le_add1 length_Cons list.size(3) One_nat_def)
  have "\<not> sint (GOGLTexturesToEvictPerFrame ExGlobals) \<le> int (length ev)"
    using len by (simp add: ExGlobals_def)
  moreover have "TextureLRU s' \<noteq> [] \<Longrightarrow> hd (TextureLRU s') = 0"
    using ev(1) by (cases ev) (auto simp: ExRegistered_fields dest: sym)
  moreover have "StaleAt ExGlobals (ExRegistered 501) 0"
    by (simp add: StaleAt_ExRegistered)
  ultimately have e: "TextureLRU s' = []"
    using ev(3) by metis
  then have "ev = [0]" using ev(1) by (simp add: ExRegistered_fields)
  with ev(2) have n: "NodeOf s' 0 = None"
    and tx: "\<exists>t. Textures (ExRegistered 501) 0 = Some t
                        \<and> (if Evictable ExGlobals t then \<exists>r. Textures s' 0 = Some (EvictedAs r t)
                            else Textures s' 0 = Some (Unregistered t))"
    by simp_all
  from tx Evictable_ExRegistered[of 501] obtain t r where
    t: "Textures (ExRegistered 501) 0 = Some t" "Textures s' 0 = Some (EvictedAs r t)"
    by auto
  have pp: "EvictionParamsPtr t = Some \<lparr> MipImageData = ExMips, bHasRestored = True,
                                      LRUNode = Some 0, FrameLastRendered = 0 \<rparr>"
    using t(1) by (auto simp: ExRegistered_def)
  then have lost: "\<not> RestoredAt s' 0 \<and> \<not> HasStorage s' 0"
    using EvictedAs_lost[OF t(2)] by simp
  have sh: "ShadowAt s' 0 = ExMips"
    using t(2) pp by (simp add: ShadowAt_def EvictedAs_def)
  have before: "RestoredAt (ExRegistered 501) 0 \<and> HasStorage (ExRegistered 501) 0"
    by (simp add: RestoredAt_def HasStorage_def ExRegistered_def)
  with e n lost sh run ExRegistered_fields(4) show ?thesis by blast
qed

text \<open>
  The claim as stated fails at an age equal to the threshold: last touched at frame 0,
  ticked at frame 500 with a threshold of 500, the texture stays in the registry.
\<close>

theorem TickEviction_threshold_counterexample:
  "TickEviction ExGlobals (ExRegistered 500) = Inr (ExRegistered 500)
   \<and> TextureLRU (ExRegistered 500) = [0]
   \<and> FrameOf (ExRegistered 500) 0 = Some 0
   \<and> GFrameNumberRenderThread (ExRegistered 500) = 500
   \<and> GOGLTextureEvictFramesToLive ExGlobals = 500"
proof -
  have "LeastRecentIsStale ExGlobals (ExRegistered 500) = Inr False"
    by (simp add: LeastRecentIsStale_def ExRegistered_def ParamsOf_def bindF_def ExTexture_def
          ExGlobals_def)
  then have "TickEviction ExGlobals (ExRegistered 500) = Inr (ExRegistered 500)"
    unfolding TickEviction_def by (subst TickEvictionLoop.simps) simp
  then show ?thesis by (simp add: ExRegistered_fields) (simp add: ExGlobals_def)
qed

section \<open>What the operations leave unchanged\<close>

lemma Resolve_frame:
  "Resolve t i k = Inr t' \<Longrightarrow>
     EvictionParamsPtr t' = EvictionParamsPtr t \<and> Static t' = Static t
     \<and> GLStorage t' = GLStorage t \<and> Target t' = Target t \<and> RHIType t' = RHIType t"
  by (auto simp: Resolve_def bindF_def Let_def Static_def split: sum.splits prod.splits if_splits)

lemma Lock_frame:
  assumes "Lock g t i k m = Inr (t', ptr, st)"
  shows "EvKey t' = EvKey t \<and> Static t' = Static t \<and> GLStorage t' = GLStorage t
         \<and> Target t' = Target t \<and> RHIType t' = RHIType t
         \<and> (\<not> IsEvicted t \<longrightarrow>
              EvictionParamsPtr t' = EvictionParamsPtr t \<and> (\<exists>bi. ptr = PixelBufferPtr bi))"
  using assms
  by (auto simp: Lock_def bindF_def Let_def SetMipData_def EvKey_def Static_def
           split: sum.splits prod.splits option.splits if_splits
           dest!: Resolve_frame)

lemma MemcpyTo_frame:
  "MemcpyTo ptr src t = Inr t' \<Longrightarrow>
     EvKey t' = EvKey t \<and> Static t' = Static t \<and> GLStorage t' = GLStorage t
     \<and> Target t' = Target t \<and> RHIType t' = RHIType t
     \<and> (\<forall>p. EvictionParamsPtr t = Some p \<and> MipImageData p = [] \<longrightarrow>
            EvictionParamsPtr t' = EvictionParamsPtr t)"
  by (auto simp: MemcpyTo_def EvKey_def Static_def
           split: LockedPtr.splits option.splits if_splits)

lemma Unlock_frame:
  "Unlock t i k = Inr t' \<Longrightarrow>
     EvictionParamsPtr t' = EvictionParamsPtr t \<and> Static t' = Static t
     \<and> Target t' = Target t \<and> RHIType t' = RHIType t
     \<and> (GLStorage t \<noteq> None \<longrightarrow> GLStorage t' \<noteq> None)"
  by (auto simp: Unlock_def bindF_def Let_def UploadMip_def Static_def
           split: sum.splits option.splits if_splits)

lemma RestoreMip_frame:
  assumes "RestoreMip g i t = Inr t'" "\<not> IsEvicted t"
  shows "EvictionParamsPtr t' = EvictionParamsPtr t \<and> Static t' = Static t
         \<and> Target t' = Target t \<and> RHIType t' = RHIType t"
proof -
  from assms(1) consider "t' = t"
    | t1 ptr st t2 src where "Lock g t (word_of_nat i) 0 RLM_WriteOnly = Inr (t1, ptr, st)"
        "MemcpyTo ptr src t1 = Inr t2" "Unlock t2 (word_of_nat i) 0 = Inr t'"
    by (auto simp: RestoreMip_def bindF_def split: option.splits if_splits sum.splits prod.splits)
  then show ?thesis
  proof cases
    case 1
    then show ?thesis by simp
  next
    case 2
    from Lock_frame[OF 2(1)] assms(2) obtain bi where
      a: "EvictionParamsPtr t1 = EvictionParamsPtr t" "Static t1 = Static t"
         "Target t1 = Target t" "RHIType t1 = RHIType t" "ptr = PixelBufferPtr bi"
      by auto
    have b: "EvictionParamsPtr t2 = EvictionParamsPtr t1" "Static t2 = Static t1"
        "Target t2 = Target t1" "RHIType t2 = RHIType t1"
      using 2(2) a(5)
      by (auto simp: MemcpyTo_def Static_def split: option.splits if_splits)
    from Unlock_frame[OF 2(3)] a b show ?thesis by simp
  qed
qed

lemma RestoreMips_frame:
  "RestoreMips g k t = Inr t' \<Longrightarrow> \<not> IsEvicted t \<Longrightarrow>
     EvictionParamsPtr t' = EvictionParamsPtr t \<and> Static t' = Static t
     \<and> Target t' = Target t \<and> RHIType t' = RHIType t"
proof (induction k arbitrary: t)
  case 0
  then show ?case by simp
next
  case (Suc k)
  from Suc.prems(1) obtain t1 where
    s1: "RestoreMip g k t = Inr t1" and s2: "RestoreMips g k t1 = Inr t'"
    by (auto simp: bindF_def split: sum.splits)
  note f1 = RestoreMip_frame[OF s1 Suc.prems(2)]
  then have "\<not> IsEvicted t1" using Suc.prems(2) by (simp add: IsEvicted_def)
  from Suc.IH[OF s2 this] f1 show ?case by simp
qed

lemma InitializeGLTextureInternal_frame:
  "InitializeGLTextureInternal g i n t = Inr (n1, t1) \<Longrightarrow>
     EvictionParamsPtr t1 = EvictionParamsPtr t \<and> Static t1 = Static t
     \<and> RHIType t1 = RHIType t"
  by (auto simp: InitializeGLTextureInternal_def Let_def Static_def split: if_splits)

lemma ReleaseMipData_frame:
  "ReleaseMipData R p = Inr p' \<Longrightarrow>
     bHasRestored p' = bHasRestored p \<and> LRUNode p' = LRUNode p
     \<and> FrameLastRendered p' = FrameLastRendered p \<and> (R = 0 \<longrightarrow> MipImageData p' = [])"
  by (auto simp: ReleaseMipData_def bindF_def split: sum.splits if_splits)

lemma RestoreUpload_effect:
  assumes "RestoreUpload g a s = Inr (s0, bCan)"
  shows "\<exists>t p t2. Textures s a = Some t \<and> EvictionParamsPtr t = Some p \<and> \<not> bHasRestored p
           \<and> Textures s0 = (Textures s)(a \<mapsto> t2)
           \<and> EvictionParamsPtr t2 = Some (p\<lparr> bHasRestored := True \<rparr>)
           \<and> Static t2 = Static t
           \<and> TextureLRU s0 = TextureLRU s \<and> TextureLRUMax s0 = TextureLRUMax s
           \<and> GFrameNumberRenderThread s0 = GFrameNumberRenderThread s
           \<and> length (MipImageData p) = unat (NumMips t)
           \<and> CanBeEvicted g t2 = Inr bCan"
proof -
  from assms obtain t p n1 t1 t2 where
    tp: "Textures s a = Some t" "EvictionParamsPtr t = Some p" "\<not> bHasRestored p"
    and i: "InitializeGLTextureInternal g (Resource t) (GLNextName s)
              (t\<lparr> EvictionParamsPtr := Some (p\<lparr> bHasRestored := True \<rparr>) \<rparr>) = Inr (n1, t1)"
    and len: "length (MipImageData p) = unat (NumMips t1)"
    and r: "RestoreMips g (length (MipImageData p)) t1 = Inr t2"
    and c: "CanBeEvicted g t2 = Inr bCan"
    and s0: "s0 = SetTexture a t2 (s\<lparr> GLNextName := n1 \<rparr>)"
    by (auto simp: RestoreUpload_def bindF_def ParamsOf_def
             split: option.splits if_splits sum.splits prod.splits)
  note f1 = InitializeGLTextureInternal_frame[OF i]
  then have ne: "\<not> IsEvicted t1" by (simp add: IsEvicted_def)
  note f2 = RestoreMips_frame[OF r ne]
  show ?thesis
    using tp f1 f2 len c s0
    by (intro exI[of _ t] exI[of _ p] exI[of _ t2]) (simp add: SetTexture_def Static_def)
qed

lemma Add_effect:
  assumes "FTextureEvictionLRU_Add a s = Inr (s1, r)"
  shows "if r then (\<exists>t p. Textures s a = Some t \<and> EvictionParamsPtr t = Some p
                 \<and> LRUNode p = None \<and> a \<notin> set (TextureLRU s)
                 \<and> length (TextureLRU s) \<noteq> TextureLRUMax s
                 \<and> Textures s1 = (Textures s)(a \<mapsto> t\<lparr> EvictionParamsPtr :=
                      Some (p\<lparr> LRUNode := Some a,
                               FrameLastRendered := GFrameNumberRenderThread s \<rparr>) \<rparr>)
                 \<and> TextureLRU s1 = TextureLRU s @ [a]
                 \<and> TextureLRUMax s1 = TextureLRUMax s
                 \<and> GFrameNumberRenderThread s1 = GFrameNumberRenderThread s)
         else s1 = s \<and> length (TextureLRU s) = TextureLRUMax s"
  using assms
  by (auto simp: FTextureEvictionLRU_Add_def bindF_def ParamsOf_def SetParams_def SetTexture_def
           split: option.splits if_splits sum.splits prod.splits)

lemma Restore_effect:
  assumes "RestoreEvictedGLResource g a b s = Inr s'"
  shows "(\<forall>c. c \<noteq> a \<longrightarrow> Textures s' c = Textures s c)
         \<and> RestoredAt s' a \<and> \<not> RestoredAt s a
         \<and> TextureLRUMax s' = TextureLRUMax s
         \<and> GFrameNumberRenderThread s' = GFrameNumberRenderThread s
         \<and> ((NodeOf s' a = NodeOf s a \<and> TextureLRU s' = TextureLRU s)
             \<or> (NodeOf s a = None \<and> a \<notin> set (TextureLRU s) \<and> NodeOf s' a = Some a
                 \<and> TextureLRU s' = TextureLRU s @ [a] \<and> FullyResident s a))"
proof -
  from assms obtain s0 bCan s1 bAdded t3 p3 p4 where
    u: "RestoreUpload g a s = Inr (s0, bCan)"
    and ad: "(if bCan then FTextureEvictionLRU_Add a s0 else Inr (s0, True)) = Inr (s1, bAdded)"
    and p3: "Textures s1 a = Some t3" "EvictionParamsPtr t3 = Some p3"
    and rel: "ReleaseMipData (if bAdded then RetainMipsOf g b t3 else 0) p3 = Inr p4"
    and s': "s' = SetParams a t3 p4 s1"
    by (auto simp: RestoreEvictedGLResource_def bindF_def ParamsOf_def
             split: option.splits if_splits sum.splits prod.splits)
  from RestoreUpload_effect[OF u] obtain t p t2 where
    e: "Textures s a = Some t" "EvictionParamsPtr t = Some p" "\<not> bHasRestored p"
       "Textures s0 = (Textures s)(a \<mapsto> t2)"
       "EvictionParamsPtr t2 = Some (p\<lparr> bHasRestored := True \<rparr>)"
       "Static t2 = Static t"
       "TextureLRU s0 = TextureLRU s" "TextureLRUMax s0 = TextureLRUMax s"
       "GFrameNumberRenderThread s0 = GFrameNumberRenderThread s"
       "length (MipImageData p) = unat (NumMips t)"
       "CanBeEvicted g t2 = Inr bCan"
    by blast
  note rf = ReleaseMipData_frame[OF rel]
  show ?thesis
  proof (cases "bCan \<and> bAdded")
    case True
    with ad have "FTextureEvictionLRU_Add a s0 = Inr (s1, True)" by simp
    from Add_effect[OF this] e(4,5) have
      a1: "LRUNode p = None" "a \<notin> set (TextureLRU s0)"
          "Textures s1 = (Textures s0)(a \<mapsto> t2\<lparr> EvictionParamsPtr :=
                      Some (p\<lparr> bHasRestored := True, LRUNode := Some a,
                               FrameLastRendered := GFrameNumberRenderThread s0 \<rparr>) \<rparr>)"
          "TextureLRU s1 = TextureLRU s0 @ [a]" "TextureLRUMax s1 = TextureLRUMax s0"
          "GFrameNumberRenderThread s1 = GFrameNumberRenderThread s0"
      by auto
    have full: "FullyResident s a"
      using e True
      by (auto simp: FullyResident_def CanBeEvicted_def AreAllMipsPresent_def Static_def
               split: if_splits option.splits)
    show ?thesis
      using e a1 p3 rf s' full
      by (auto simp: SetParams_def SetTexture_def NodeOf_def RestoredAt_def)
  next
    case False
    with ad have s1: "s1 = s0"
      by (auto dest!: Add_effect split: if_splits)
    show ?thesis
      using e s1 p3 rf s'
      by (auto simp: SetParams_def SetTexture_def NodeOf_def RestoredAt_def)
  qed
qed

lemma RegistryInv_SetTexture:
  assumes "Textures s a = Some t" "EvKey t' = EvKey t"
  shows "RegistryInv (SetTexture a t' s) = RegistryInv s"
proof -
  have n: "NodeOf (SetTexture a t' s) b = NodeOf s b" for b
    using assms by (auto simp: NodeOf_def SetTexture_def EvKey_def split: option.splits)
  have r: "RestoredAt (SetTexture a t' s) b = RestoredAt s b" for b
    using assms by (auto simp: RestoredAt_def SetTexture_def EvKey_def split: option.splits)
  have l: "TextureLRU (SetTexture a t' s) = TextureLRU s" by (simp add: SetTexture_def)
  show ?thesis by (simp add: RegistryInv_def n r l)
qed

lemma CreateOpenGLTexture_node:
  assumes "CreateOpenGLTexture g d n = Inr (n', t)" "EvictionParamsPtr d = None"
  shows "case EvictionParamsPtr t of None \<Rightarrow> True | Some p \<Rightarrow> LRUNode p = None"
  using assms
  by (auto simp: CreateOpenGLTexture_def InitializeGLTexture_def Let_def NewEvictionParams_def
           split: if_splits option.splits dest!: InitializeGLTextureInternal_frame)

lemma RegistryInv_create:
  assumes "RegistryInv s" "Textures s a = None"
    "CreateOpenGLTexture g d (GLNextName s) = Inr (n, t)" "EvictionParamsPtr d = None"
  shows "RegistryInv (SetTexture a t (s\<lparr> GLNextName := n \<rparr>))"
proof -
  let ?s' = "SetTexture a t (s\<lparr> GLNextName := n \<rparr>)"
  have na: "NodeOf s a = None" using assms(2) by (simp add: NodeOf_def)
  have notin: "a \<notin> set (TextureLRU s)"
  proof
    assume "a \<in> set (TextureLRU s)"
    then have "NodeOf s a \<noteq> None" using assms(1) unfolding RegistryInv_def by blast
    then show False using na by simp
  qed
  have n: "NodeOf ?s' b = NodeOf s b" for b
    using CreateOpenGLTexture_node[OF assms(3,4)] assms(2)
    by (auto simp: NodeOf_def SetTexture_def split: option.splits)
  have r: "b \<noteq> a \<Longrightarrow> RestoredAt ?s' b = RestoredAt s b" for b
    by (simp add: RestoredAt_def SetTexture_def)
  have l: "TextureLRU ?s' = TextureLRU s" by (simp add: SetTexture_def)
  have "\<forall>c \<in> set (TextureLRU s). RestoredAt ?s' c"
  proof
    fix c assume c: "c \<in> set (TextureLRU s)"
    then have "c \<noteq> a" using notin by auto
    then show "RestoredAt ?s' c" using r[of c] assms(1) c by (simp add: RegistryInv_def)
  qed
  then show ?thesis using assms(1)
    by (simp add: RegistryInv_def n l)
qed

lemma RegistryInv_restore:
  assumes "RegistryInv s" "RestoreEvictedGLResource g a b s = Inr s'"
  shows "RegistryInv s'"
proof -
  note e = Restore_effect[OF assms(2)]
  have n: "c \<noteq> a \<Longrightarrow> NodeOf s' c = NodeOf s c" for c using e by (simp add: NodeOf_def)
  have r: "c \<noteq> a \<Longrightarrow> RestoredAt s' c = RestoredAt s c" for c using e by (simp add: RestoredAt_def)
  from e consider "NodeOf s' a = NodeOf s a" "TextureLRU s' = TextureLRU s"
    | "NodeOf s a = None" "a \<notin> set (TextureLRU s)" "NodeOf s' a = Some a"
      "TextureLRU s' = TextureLRU s @ [a]"
    by auto
  then show ?thesis
  proof cases
    case 1
    have "(NodeOf s' c \<noteq> None) = (c \<in> set (TextureLRU s'))" for c
      using assms(1) 1 n[of c] by (cases "c = a") (auto simp: RegistryInv_def)
    moreover have "\<forall>c \<in> set (TextureLRU s'). RestoredAt s' c"
      using assms(1) 1 e r by (metis RegistryInv_def)
    ultimately show ?thesis using assms(1) 1 by (simp add: RegistryInv_def)
  next
    case 2
    have "(NodeOf s' c \<noteq> None) = (c \<in> set (TextureLRU s'))" for c
      using assms(1) 2 n[of c] by (cases "c = a") (auto simp: RegistryInv_def)
    moreover have "\<forall>c \<in> set (TextureLRU s'). RestoredAt s' c"
    proof
      fix c assume c: "c \<in> set (TextureLRU s')"
      show "RestoredAt s' c"
      proof (cases "c = a")
        case True
        then show ?thesis using e by simp
      next
        case False
        then have "c \<in> set (TextureLRU s)" using c 2 by simp
        then have "RestoredAt s c" using assms(1) by (simp add: RegistryInv_def)
        then show ?thesis using r[OF False] by simp
      qed
    qed
    ultimately show ?thesis using assms(1) 2 by (simp add: RegistryInv_def)
  qed
qed

lemma RegistryInv_body:
  assumes "RegistryInv s" "TickEvictionBody g s = Inr s'"
  shows "RegistryInv s'"
proof -
  from assms(2) obtain lr rest t p where
    lru: "TextureLRU s = lr # rest" and tp: "Textures s lr = Some t" "EvictionParamsPtr t = Some p"
    and ev: "TryEvictGLResource g lr
               (SetParams lr t (p\<lparr> LRUNode := None \<rparr>) (s\<lparr> TextureLRU := rest \<rparr>)) = Inr s'"
    by (auto simp: TickEvictionBody_def bindF_def ParamsOf_def
             split: list.splits sum.splits prod.splits option.splits)
  let ?s1 = "SetParams lr t (p\<lparr> LRUNode := None \<rparr>) (s\<lparr> TextureLRU := rest \<rparr>)"
  have n1: "NodeOf ?s1 b = (if b = lr then None else NodeOf s b)" for b
    by (simp add: NodeOf_def SetParams_def SetTexture_def)
  have r1: "b \<noteq> lr \<Longrightarrow> RestoredAt ?s1 b = RestoredAt s b" for b
    by (simp add: RestoredAt_def SetParams_def SetTexture_def)
  have l1: "TextureLRU ?s1 = rest" by (simp add: SetParams_def SetTexture_def)
  have n2: "NodeOf s' b = NodeOf ?s1 b" for b
    using TryEvictGLResource_cases[OF ev] by (auto simp: NodeOf_def)
  have r2: "b \<noteq> lr \<Longrightarrow> RestoredAt s' b = RestoredAt ?s1 b" for b
    using TryEvictGLResource_cases[OF ev] by (auto simp: RestoredAt_def)
  have l2: "TextureLRU s' = rest"
    using TryEvictGLResource_TextureLRU[OF ev] l1 by simp
  have d: "distinct rest" "lr \<notin> set rest" using assms(1) lru by (auto simp: RegistryInv_def)
  have "(NodeOf s' c \<noteq> None) = (c \<in> set rest)" for c
    using assms(1) lru d by (auto simp: n2 n1 RegistryInv_def)
  moreover have "\<forall>c \<in> set rest. RestoredAt s' c"
  proof
    fix c assume c: "c \<in> set rest"
    then have ne: "c \<noteq> lr" using d by auto
    have "RestoredAt s c" using assms(1) lru c by (simp add: RegistryInv_def)
    then show "RestoredAt s' c" using r1[OF ne] r2[OF ne] by simp
  qed
  ultimately show ?thesis using d l2 by (simp add: RegistryInv_def)
qed

lemma RegistryInv_loop:
  "RegistryInv s \<Longrightarrow> TickEvictionLoop g c s = Inr s' \<Longrightarrow> RegistryInv s'"
proof (induction g c s rule: TickEvictionLoop.induct)
  case (1 g c s)
  from "1.prems"(2) obtain bStale where st: "LeastRecentIsStale g s = Inr bStale"
    by (subst (asm) TickEvictionLoop.simps) (auto split: sum.splits)
  show ?case
  proof (cases "bStale \<and> sint c < sint (GOGLTexturesToEvictPerFrame g)")
    case False
    then have "s' = s" using "1.prems"(2) st
      by (subst (asm) TickEvictionLoop.simps) (auto split: sum.splits)
    then show ?thesis using "1.prems"(1) by simp
  next
    case True
    with "1.prems"(2) st obtain s1 where
      body: "TickEvictionBody g s = Inr s1" and rest: "TickEvictionLoop g (c + 1) s1 = Inr s'"
      by (subst (asm) TickEvictionLoop.simps) (auto split: sum.splits)
    from "1.IH"[OF st True body RegistryInv_body[OF "1.prems"(1) body] rest] show ?thesis .
  qed
qed

lemma RegistryInv_touch:
  assumes "RegistryInv s" "FTextureEvictionLRU_Touch a s = Inr s'"
  shows "RegistryInv s'"
proof -
  from assms(2) obtain t p where
    tp: "Textures s a = Some t" "EvictionParamsPtr t = Some p" "LRUNode p \<noteq> None"
        "a \<in> set (TextureLRU s)"
    and s': "s' = SetParams a t (p\<lparr> FrameLastRendered := GFrameNumberRenderThread s \<rparr>)
                    (s\<lparr> TextureLRU := removeAll a (TextureLRU s) @ [a] \<rparr>)"
    by (auto simp: FTextureEvictionLRU_Touch_def bindF_def ParamsOf_def
             split: option.splits if_splits)
  have n: "NodeOf s' b = NodeOf s b" for b
    using tp s' by (auto simp: NodeOf_def SetParams_def SetTexture_def)
  have r: "RestoredAt s' b = RestoredAt s b" for b
    using tp s' by (auto simp: RestoredAt_def SetParams_def SetTexture_def)
  have l: "TextureLRU s' = removeAll a (TextureLRU s) @ [a]"
    using s' by (simp add: SetParams_def SetTexture_def)
  have st: "set (TextureLRU s') = set (TextureLRU s)" using tp(4) l by auto
  have "distinct (TextureLRU s')" using assms(1) l by (simp add: RegistryInv_def distinct_removeAll)
  then show ?thesis using assms(1) by (simp add: RegistryInv_def n r st)
qed

lemma RegistryInv_remove:
  assumes "RegistryInv s" "FTextureEvictionLRU_Remove a s = Inr s'"
  shows "RegistryInv s'"
proof (cases "s' = s")
  case True
  then show ?thesis using assms(1) by simp
next
  case False
  with assms(2) obtain t p where
    tp: "Textures s a = Some t" "EvictionParamsPtr t = Some p"
    and s': "s' = SetParams a t (p\<lparr> LRUNode := None \<rparr>)
                    (s\<lparr> TextureLRU := removeAll a (TextureLRU s) \<rparr>)"
    by (auto simp: FTextureEvictionLRU_Remove_def split: option.splits if_splits)
  have n: "NodeOf s' b = (if b = a then None else NodeOf s b)" for b
    using tp s' by (auto simp: NodeOf_def SetParams_def SetTexture_def)
  have r: "b \<noteq> a \<Longrightarrow> RestoredAt s' b = RestoredAt s b" for b
    using tp s' by (auto simp: RestoredAt_def SetParams_def SetTexture_def)
  have l: "TextureLRU s' = removeAll a (TextureLRU s)"
    using s' by (simp add: SetParams_def SetTexture_def)
  show ?thesis using assms(1) r
    by (auto simp: RegistryInv_def n l distinct_removeAll)
qed

lemma RegistryInv_step: "Step s s' \<Longrightarrow> RegistryInv s \<Longrightarrow> RegistryInv s'"
proof (induction rule: Step.induct)
  case (StepCreate s a d g n t)
  then show ?case by (simp add: RegistryInv_create)
next
  case (StepSetMipData s a t p i src n p')
  have "EvKey (t\<lparr> EvictionParamsPtr := Some p' \<rparr>) = EvKey t"
    using StepSetMipData by (auto simp: EvKey_def SetMipData_def split: if_splits)
  then show ?case using StepSetMipData
    by (simp add: SetParams_def RegistryInv_SetTexture)
next
  case (StepLock s a t g i k m t' ptr stride)
  then show ?case using Lock_frame by (simp add: RegistryInv_SetTexture)
next
  case (StepWrite s a t ptr src t')
  then show ?case using MemcpyTo_frame by (simp add: RegistryInv_SetTexture)
next
  case (StepUnlock s a t i k t')
  from Unlock_frame[OF StepUnlock(2)] have "EvKey t' = EvKey t" by (simp add: EvKey_def)
  then show ?case using StepUnlock by (simp add: RegistryInv_SetTexture)
next
  case (StepRestore g a b s s')
  then show ?case by (simp add: RegistryInv_restore)
next
  case (StepTickEviction g s s')
  then show ?case by (auto simp: TickEviction_def intro: RegistryInv_loop)
next
  case (StepTouch a s s')
  then show ?case by (simp add: RegistryInv_touch)
next
  case (StepRemove a s s')
  then show ?case by (simp add: RegistryInv_remove)
next
  case (StepFrame s)
  then show ?case by (simp add: RegistryInv_def NodeOf_def RestoredAt_def)
qed

lemma Reachable_RegistryInv: "Reachable s \<Longrightarrow> RegistryInv s"
proof (induction rule: Reachable.induct)
  case (ReachableInit s)
  then show ?case by (simp add: RegistryInv_def NodeOf_def)
next
  case (ReachableStep s s')
  then show ?case by (simp add: RegistryInv_step)
qed

section \<open>Evaluating a restore\<close>

lemmas restore_eval =
  RestoreEvictedGLResource_def RestoreUpload_def ParamsOf_def bindF_def
  InitializeGLTextureInternal_def TileMemDepth_def AttachmentIsColor_def Let_def
  RestoreMip_def GetLockSize_def drop_bit_eq_div
  Lock_def IsEvicted_def BufferIndex_def NewPixelBuffer_def PixelBuffer_Lock_def MemcpyTo_def
  Unlock_def UploadMip_def PixelBuffer_Unlock_def
  CanBeEvicted_def CanCreateAsEvicted_def CanDeferTextureCreation_def AreAllMipsPresent_def
  FTextureEvictionLRU_Add_def SetTexture_def SetParams_def
  RetainMipsOf_def DeferTextureCreationKeepLowerMipCount_def
  ReleaseMipData_def ReleaseStart_def

lemma RestoreMips_2: "RestoreMips g 2 t = bindF (RestoreMip g 1 t) (\<lambda>t1. bindF (RestoreMip g 0 t1) Inr)"
  by (simp add: numeral_2_eq_2 bindF_def split: sum.splits)


section \<open>The invariant of the registry\<close>



lemma MemcpyFrom_ExSource0: "MemcpyFrom ExSource0 4 = [Some 10, Some 11, Some 12, Some 13]"
  by (simp add: MemcpyFrom_def ExSource0_def upt_rec)

lemma MemcpyFrom_ExSource1: "MemcpyFrom ExSource1 1 = [Some 20]"
  by (simp add: MemcpyFrom_def ExSource1_def)

lemma CanCreateAsEvicted_ExDescriptor:
  "CanCreateAsEvicted ExGlobals (ExDescriptor 8)" "CanCreateAsEvicted ExGlobals (ExDescriptor 0x8000000)"
  by (simp_all add: CanCreateAsEvicted_def CanDeferTextureCreation_def ExGlobals_def
        ExDescriptor_def ExTexture_def)

lemma Create_Ex:
  assumes "CanCreateAsEvicted ExGlobals (ExDescriptor f)"
  shows "CreateOpenGLTexture ExGlobals (ExDescriptor f) 1 = Inr (2, ExEmptyTexture f)"
  using assms
  by (simp add: CreateOpenGLTexture_def InitializeGLTexture_def TileMemDepth_def GenName_def
        IsEvicted_def NewEvictionParams_def ExDescriptor_def ExTexture_def ExEmptyTexture_def
        Let_def)

lemma Reachable_ExState:
  assumes "CanCreateAsEvicted ExGlobals (ExDescriptor f)"
  shows "Reachable (ExState f cap 0)"
proof -
  let ?p0 = "NewEvictionParams 2"
  let ?p1 = "?p0\<lparr> MipImageData := [[], [Some 20]] \<rparr>"
  let ?p2 = "?p0\<lparr> MipImageData := ExMips \<rparr>"
  let ?sa = "SetTexture 0 (ExEmptyTexture f) ((ExInit cap)\<lparr> GLNextName := 2 \<rparr>)"
  let ?sb = "SetParams 0 (ExEmptyTexture f) ?p1 ?sa"
  let ?tb = "(ExEmptyTexture f)\<lparr> EvictionParamsPtr := Some ?p1 \<rparr>"
  let ?sc = "SetParams 0 ?tb ?p2 ?sb"
  have r0: "Reachable (ExInit cap)" by (rule ReachableInit) (simp_all add: ExInit_def)
  have "Step (ExInit cap) (SetTexture 0 (ExEmptyTexture f) ((ExInit cap)\<lparr> GLNextName := 2 \<rparr>))"
    by (rule StepCreate[where g = ExGlobals and d = "ExDescriptor f"])
       (simp_all add: ExInit_def ExDescriptor_def Create_Ex[OF assms, unfolded ExDescriptor_def])
  then have ra: "Reachable ?sa" using r0 ReachableStep by blast
  have m1: "SetMipData 1 (Some ExSource1) 1 ?p0 = Inr ?p1"
    by (simp add: SetMipData_def NewEvictionParams_def MemcpyFrom_def ExSource1_def
          replicate_2_Nil)
  have "Step ?sa ?sb"
    by (rule StepSetMipData[OF _ _ _ m1])
       (simp_all add: SetTexture_def ExEmptyTexture_def IsEvicted_def NewEvictionParams_def)
  then have rb: "Reachable ?sb" using ra ReachableStep by blast
  have m0: "SetMipData 0 (Some ExSource0) 4 ?p1 = Inr ?p2"
    by (simp add: SetMipData_def NewEvictionParams_def MemcpyFrom_ExSource0 ExMips_def)
  have "Step ?sb ?sc"
    by (rule StepSetMipData[OF _ _ _ m0])
       (simp_all add: SetParams_def SetTexture_def ExEmptyTexture_def IsEvicted_def NewEvictionParams_def)
  then have rc: "Reachable ?sc" using rb ReachableStep by blast
  have "?sc = ExState f cap 0"
    by (simp add: SetParams_def SetTexture_def ExState_def ExInit_def ExEmptyTexture_def
          ExTexture_def NewEvictionParams_def)
  then show ?thesis using rc by simp
qed






section \<open>A restore with the registry at capacity\<close>

lemma Dropped_iff:
  "Dropped s a \<longleftrightarrow>
     a \<notin> set (TextureLRU s)
     \<and> (\<exists>t p. Textures s a = Some t \<and> NumMips t \<noteq> 0 \<and> EvictionParamsPtr t = Some p
            \<and> bHasRestored p \<and> MipImageData p = [] \<and> LRUNode p = None)"
  by (auto simp: Dropped_def split: option.splits)

lemma Dropped_RestoredAt: "Dropped s a \<Longrightarrow> RestoredAt s a"
  by (auto simp: Dropped_iff RestoredAt_def)

lemma Dropped_TryEvict: "Dropped s a \<Longrightarrow> TryEvictGLResource g a s = Inr s"
  by (auto simp: Dropped_iff TryEvictGLResource_def CanBeEvicted_def bindF_def unat_eq_0)

lemma Dropped_SetTexture:
  assumes "Dropped s a" "Textures s a = Some t" "EvictionParamsPtr t' = EvictionParamsPtr t"
    "Static t' = Static t" "GLStorage t \<noteq> None \<longrightarrow> GLStorage t' \<noteq> None"
  shows "Dropped (SetTexture a t' s) a \<and> (HasStorage s a \<longrightarrow> HasStorage (SetTexture a t' s) a)"
  using assms by (auto simp: Dropped_iff HasStorage_def SetTexture_def Static_def)

lemma Dropped_other:
  assumes "Dropped s a" "Textures s' a = Textures s a"
    "a \<in> set (TextureLRU s') \<longrightarrow> a \<in> set (TextureLRU s)"
  shows "Dropped s' a \<and> (HasStorage s a \<longrightarrow> HasStorage s' a)"
  using assms by (auto simp: Dropped_iff HasStorage_def)

lemma Dropped_body:
  assumes "Dropped s a" "TickEvictionBody g s = Inr s'"
  shows "Dropped s' a \<and> (HasStorage s a \<longrightarrow> HasStorage s' a)"
proof -
  from assms(2) obtain lr rest t p where
    lru: "TextureLRU s = lr # rest" and tp: "Textures s lr = Some t" "EvictionParamsPtr t = Some p"
    and ev: "TryEvictGLResource g lr
               (SetParams lr t (p\<lparr> LRUNode := None \<rparr>) (s\<lparr> TextureLRU := rest \<rparr>)) = Inr s'"
    by (auto simp: TickEvictionBody_def bindF_def ParamsOf_def
             split: list.splits sum.splits prod.splits option.splits)
  let ?s1 = "SetParams lr t (p\<lparr> LRUNode := None \<rparr>) (s\<lparr> TextureLRU := rest \<rparr>)"
  have ne: "a \<noteq> lr" using assms(1) lru by (auto simp: Dropped_iff)
  have t1: "Textures ?s1 a = Textures s a" using ne by (simp add: SetParams_def SetTexture_def)
  have t2: "Textures s' a = Textures ?s1 a"
    using TryEvictGLResource_cases[OF ev] ne by auto
  have l2: "TextureLRU s' = rest"
    using TryEvictGLResource_TextureLRU[OF ev] by (simp add: SetParams_def SetTexture_def)
  show ?thesis
    by (rule Dropped_other[OF assms(1)]) (simp_all add: t1 t2 l2 lru)
qed

lemma Dropped_loop:
  "Dropped s a \<Longrightarrow> TickEvictionLoop g c s = Inr s' \<Longrightarrow>
     Dropped s' a \<and> (HasStorage s a \<longrightarrow> HasStorage s' a)"
proof (induction g c s rule: TickEvictionLoop.induct)
  case (1 g c s)
  from "1.prems"(2) obtain bStale where st: "LeastRecentIsStale g s = Inr bStale"
    by (subst (asm) TickEvictionLoop.simps) (auto split: sum.splits)
  show ?case
  proof (cases "bStale \<and> sint c < sint (GOGLTexturesToEvictPerFrame g)")
    case False
    then have "s' = s" using "1.prems"(2) st
      by (subst (asm) TickEvictionLoop.simps) (auto split: sum.splits)
    then show ?thesis using "1.prems"(1) by simp
  next
    case True
    with "1.prems"(2) st obtain s1 where
      body: "TickEvictionBody g s = Inr s1" and rest: "TickEvictionLoop g (c + 1) s1 = Inr s'"
      by (subst (asm) TickEvictionLoop.simps) (auto split: sum.splits)
    note b = Dropped_body[OF "1.prems"(1) body]
    from "1.IH"[OF st True body _ rest] b show ?thesis by blast
  qed
qed

lemma Dropped_step:
  "Step s s' \<Longrightarrow> Dropped s a \<Longrightarrow> Dropped s' a \<and> (HasStorage s a \<longrightarrow> HasStorage s' a)"
proof (induction rule: Step.induct)
  case (StepCreate s c d g n t)
  then have "c \<noteq> a" by (auto simp: Dropped_iff)
  then show ?case
    by (intro Dropped_other[OF StepCreate(4)]) (simp_all add: SetTexture_def)
next
  case (StepSetMipData s c t p i src n p')
  then have "c \<noteq> a" by (auto simp: Dropped_iff IsEvicted_def)
  then show ?case
    by (intro Dropped_other[OF StepSetMipData(5)]) (simp_all add: SetParams_def SetTexture_def)
next
  case (StepLock s c t g i k m t' ptr stride)
  show ?case
  proof (cases "c = a")
    case True
    have ta: "Textures s a = Some t" using StepLock True by simp
    have "\<not> IsEvicted t" using StepLock(3) ta by (auto simp: Dropped_iff IsEvicted_def)
    with Lock_frame[OF StepLock(2)]
    have "Dropped (SetTexture a t' s) a \<and> (HasStorage s a \<longrightarrow> HasStorage (SetTexture a t' s) a)"
      by (intro Dropped_SetTexture[OF StepLock(3) ta]) auto
    then show ?thesis using True by simp
  next
    case False
    then show ?thesis
      by (intro Dropped_other[OF StepLock(3)]) (simp_all add: SetTexture_def)
  qed
next
  case (StepWrite s c t ptr src t')
  show ?case
  proof (cases "c = a")
    case True
    then have ta: "Textures s a = Some t" using StepWrite by simp
    have "\<exists>p. EvictionParamsPtr t = Some p \<and> MipImageData p = []"
      using StepWrite(3) ta by (auto simp: Dropped_iff)
    with MemcpyTo_frame[OF StepWrite(2)]
    have "Dropped (SetTexture a t' s) a \<and> (HasStorage s a \<longrightarrow> HasStorage (SetTexture a t' s) a)"
      by (intro Dropped_SetTexture[OF StepWrite(3) ta]) auto
    then show ?thesis using True by simp
  next
    case False
    then show ?thesis
      by (intro Dropped_other[OF StepWrite(3)]) (simp_all add: SetTexture_def)
  qed
next
  case (StepUnlock s c t i k t')
  show ?case
  proof (cases "c = a")
    case True
    then have ta: "Textures s a = Some t" using StepUnlock by simp
    from Unlock_frame[OF StepUnlock(2)]
    have "Dropped (SetTexture a t' s) a \<and> (HasStorage s a \<longrightarrow> HasStorage (SetTexture a t' s) a)"
      by (intro Dropped_SetTexture[OF StepUnlock(3) ta]) auto
    then show ?thesis using True by simp
  next
    case False
    then show ?thesis
      by (intro Dropped_other[OF StepUnlock(3)]) (simp_all add: SetTexture_def)
  qed
next
  case (StepRestore g c b s s')
  note e = Restore_effect[OF StepRestore(1)]
  have ne: "c \<noteq> a" using e Dropped_RestoredAt[OF StepRestore(2)] by auto
  show ?case
    using e ne by (intro Dropped_other[OF StepRestore(2)]) auto
next
  case (StepTickEviction g s s')
  then show ?case by (simp add: TickEviction_def Dropped_loop)
next
  case (StepTouch c s s')
  from StepTouch(1) obtain t p where
    tp: "Textures s c = Some t" "EvictionParamsPtr t = Some p" "LRUNode p \<noteq> None"
        "c \<in> set (TextureLRU s)"
    and s': "s' = SetParams c t (p\<lparr> FrameLastRendered := GFrameNumberRenderThread s \<rparr>)
                    (s\<lparr> TextureLRU := removeAll c (TextureLRU s) @ [c] \<rparr>)"
    by (auto simp: FTextureEvictionLRU_Touch_def bindF_def ParamsOf_def
             split: option.splits if_splits)
  have ne: "c \<noteq> a" using tp StepTouch(2) by (auto simp: Dropped_iff)
  show ?case
    using ne s' by (intro Dropped_other[OF StepTouch(2)]) (auto simp: SetParams_def SetTexture_def)
next
  case (StepRemove c s s')
  show ?case
  proof (cases "s' = s")
    case True
    then show ?thesis using StepRemove by simp
  next
    case False
    with StepRemove(1) obtain t p where
      tp: "Textures s c = Some t" "EvictionParamsPtr t = Some p" "LRUNode p \<noteq> None"
      and s': "s' = SetParams c t (p\<lparr> LRUNode := None \<rparr>)
                      (s\<lparr> TextureLRU := removeAll c (TextureLRU s) \<rparr>)"
      by (auto simp: FTextureEvictionLRU_Remove_def split: option.splits if_splits)
    have ne: "c \<noteq> a" using tp StepRemove(2) by (auto simp: Dropped_iff)
    show ?thesis
      using ne s' by (intro Dropped_other[OF StepRemove(2)]) (auto simp: SetParams_def SetTexture_def)
  qed
next
  case (StepFrame s)
  then show ?case by (intro Dropped_other) simp_all
qed

lemma Dropped_steps:
  "Step\<^sup>*\<^sup>* s s' \<Longrightarrow> Dropped s a \<Longrightarrow> Dropped s' a \<and> (HasStorage s a \<longrightarrow> HasStorage s' a)"
proof (induction rule: rtranclp_induct)
  case base
  then show ?case by simp
next
  case (step y z)
  then show ?case using Dropped_step[OF step(2)] by blast
qed

lemma sint_nonneg_eq_uint:
  assumes "0 \<le> sint (w :: 32 word)"
  shows "sint w = uint w"
proof -
  have nb: "\<not> bit w 31" using assms bit_last_iff[of w] by simp
  then have nbu: "\<not> bit (uint w) 31" by (simp add: bit_uint_iff)
  have a: "take_bit (Suc 31) (uint w) = 2 ^ 31 * of_bool (bit (uint w) 31) + take_bit 31 (uint w)"
    by (rule take_bit_Suc_from_most)
  have "uint w < 2 ^ Suc 31" using uint_bounded[of w] by simp
  then have b: "take_bit (Suc 31) (uint w) = uint w"
    by (intro take_bit_int_eq_self) simp_all
  have "sint w = signed_take_bit 31 (uint w)" by (simp add: sint_uint)
  also have "\<dots> = take_bit 31 (uint w)"
    using nbu by (rule signed_take_bit_eq_if_positive)
  also have "\<dots> = uint w" using a b nbu by simp
  finally show ?thesis .
qed

lemma ReleaseStart_zero_bound:
  assumes "0 \<le> ReleaseStart 0 p"
  shows "Suc (nat (ReleaseStart 0 p)) \<le> length (MipImageData p)"
proof -
  let ?w = "word_of_nat (length (MipImageData p)) :: 32 word"
  have s: "ReleaseStart 0 p = sint (?w - 1)" by (simp add: ReleaseStart_def)
  have ne: "?w \<noteq> 0" using assms s by auto
  have e: "sint (?w - 1) = uint (?w - 1)"
    using assms unfolding s by (rule sint_nonneg_eq_uint)
  have lt: "unat (?w - 1) < unat ?w" using ne by (simp add: measure_unat)
  have le: "unat ?w \<le> length (MipImageData p)" by (metis le_unat_uoi linorder_linear)
  have "nat (ReleaseStart 0 p) = unat (?w - 1)" unfolding s e by simp
  then show ?thesis using lt le by linarith
qed

lemma ReleaseMipData_zero: "ReleaseMipData 0 p = Inr (p\<lparr> MipImageData := [] \<rparr>)"
proof (cases "ReleaseStart 0 p < 0")
  case True
  then show ?thesis by (simp add: ReleaseMipData_def bindF_def)
next
  case False
  then have "Suc (nat (ReleaseStart 0 p)) \<le> length (MipImageData p)"
    by (intro ReleaseStart_zero_bound) simp
  from ReleaseLoop_eq[OF this] False show ?thesis
    by (simp add: ReleaseMipData_def bindF_def)
qed

lemma Restore_full:
  assumes up: "RestoreUpload g a s = Inr (s0, True)"
    and full: "length (TextureLRU s) = TextureLRUMax s"
    and node: "NodeOf s a = None" and mem: "a \<notin> set (TextureLRU s)"
  shows "FTextureEvictionLRU_Add a s0 = Inr (s0, False)
         \<and> (\<exists>s'. RestoreEvictedGLResource g a b s = Inr s' \<and> ShadowAt s' a = []
               \<and> NodeOf s' a = None \<and> Dropped s' a)"
proof -
  from RestoreUpload_effect[OF up] obtain t p t2 where
    e: "Textures s a = Some t" "EvictionParamsPtr t = Some p" "\<not> bHasRestored p"
       "Textures s0 = (Textures s)(a \<mapsto> t2)"
       "EvictionParamsPtr t2 = Some (p\<lparr> bHasRestored := True \<rparr>)"
       "Static t2 = Static t"
       "TextureLRU s0 = TextureLRU s" "TextureLRUMax s0 = TextureLRUMax s"
       "length (MipImageData p) = unat (NumMips t)"
       "CanBeEvicted g t2 = Inr True"
    by blast
  have n0: "LRUNode p = None" using node e by (simp add: NodeOf_def)
  have add: "FTextureEvictionLRU_Add a s0 = Inr (s0, False)"
    using e n0 mem full
    by (simp add: FTextureEvictionLRU_Add_def bindF_def ParamsOf_def)
  have nm: "NumMips t2 \<noteq> 0"
    using e(5,10)
    by (auto simp: CanBeEvicted_def AreAllMipsPresent_def split: if_splits)
  let ?s' = "SetParams a t2 (p\<lparr> bHasRestored := True, MipImageData := [] \<rparr>) s0"
  have r: "RestoreEvictedGLResource g a b s = Inr ?s'"
    using up add e
    by (simp add: RestoreEvictedGLResource_def bindF_def ParamsOf_def ReleaseMipData_zero)
  have "ShadowAt ?s' a = []" "NodeOf ?s' a = None" "Dropped ?s' a"
    using e n0 mem nm
    by (simp_all add: ShadowAt_def NodeOf_def Dropped_iff SetParams_def SetTexture_def)
  with add r show ?thesis by blast
qed

text \<open>
  Claim C6. A restore reaches its call of \<^verbatim>\<open>FTextureEvictionLRU::Add\<close> (the uploads are done
  and \<^verbatim>\<open>CanBeEvicted()\<close> returned true) while the registry is at capacity: \<^verbatim>\<open>Add\<close> returns
  false and changes nothing, the restore completes, and it leaves the texture with an
  empty shadow store, an invalid \<^verbatim>\<open>LRUNode\<close> and outside the registry. In every state
  that the run reaches from there the texture is still restored and still outside the
  registry (so no tick of the scheduler picks it), a call of \<^verbatim>\<open>TryEvictGLResource\<close> on it
  returns without changing anything, and GPU storage that it had after the restore is
  still there.
\<close>

theorem Restore_registry_full:
  assumes "Reachable s"
    and "RestoreUpload g a s = Inr (s0, True)"
    and "length (TextureLRU s) = TextureLRUMax s"
  shows "FTextureEvictionLRU_Add a s0 = Inr (s0, False)
         \<and> (\<exists>s'. RestoreEvictedGLResource g a b s = Inr s' \<and> ShadowAt s' a = []
               \<and> NodeOf s' a = None \<and> a \<notin> set (TextureLRU s')
               \<and> (\<forall>s'' g'. Step\<^sup>*\<^sup>* s' s'' \<longrightarrow>
                     RestoredAt s'' a \<and> a \<notin> set (TextureLRU s'')
                     \<and> TryEvictGLResource g' a s'' = Inr s''
                     \<and> (HasStorage s' a \<longrightarrow> HasStorage s'' a)))"
proof -
  have inv: "RegistryInv s" using assms(1) by (rule Reachable_RegistryInv)
  from RestoreUpload_effect[OF assms(2)] have "\<not> RestoredAt s a"
    by (auto simp: RestoredAt_def)
  then have mem: "a \<notin> set (TextureLRU s)" using inv by (auto simp: RegistryInv_def)
  then have node: "NodeOf s a = None" using inv unfolding RegistryInv_def by blast
  from Restore_full[OF assms(2,3) node mem, of b] obtain s' where
    add: "FTextureEvictionLRU_Add a s0 = Inr (s0, False)"
    and r: "RestoreEvictedGLResource g a b s = Inr s'" "ShadowAt s' a = []" "NodeOf s' a = None"
    and d: "Dropped s' a"
    by blast
  have later: "RestoredAt s'' a \<and> a \<notin> set (TextureLRU s'')
                 \<and> TryEvictGLResource g' a s'' = Inr s''
                 \<and> (HasStorage s' a \<longrightarrow> HasStorage s'' a)"
    if "Step\<^sup>*\<^sup>* s' s''" for s'' g'
  proof -
    from Dropped_steps[OF that d] have d'': "Dropped s'' a"
      and h: "HasStorage s' a \<longrightarrow> HasStorage s'' a" by simp_all
    from d'' have "a \<notin> set (TextureLRU s'')" by (simp add: Dropped_iff)
    with Dropped_RestoredAt[OF d''] Dropped_TryEvict[OF d''] h show ?thesis by simp
  qed
  have "a \<notin> set (TextureLRU s')" using d by (simp add: Dropped_iff)
  with add r later show ?thesis by blast
qed

lemma RestoreUpload_Ex_full:
  "\<exists>s0. RestoreUpload ExGlobals 0 (ExState 0x8000000 0 0) = Inr (s0, True)"
  by (simp add: ExState_def ExTexture_def ExGlobals_def ExMips_def RestoreMips_2 restore_eval)

lemma Restore_Ex_full:
  "\<exists>s'. RestoreEvictedGLResource ExGlobals 0 True (ExState 0x8000000 0 0) = Inr s'
        \<and> HasStorage s' 0 \<and> TextureLRU s' = []"
  by (simp add: ExState_def ExTexture_def ExGlobals_def ExMips_def RestoreMips_2 restore_eval
        HasStorage_def)

text \<open>
  The streamable example with a registry of capacity 0: the restore uploads both mips,
  is refused by the registry, drops the shadow store, and an eviction attempt right
  after it changes nothing.
\<close>

theorem Restore_registry_full_witness:
  "Reachable (ExState 0x8000000 0 0)
   \<and> length (TextureLRU (ExState 0x8000000 0 0)) = TextureLRUMax (ExState 0x8000000 0 0)
   \<and> (\<exists>s0. RestoreUpload ExGlobals 0 (ExState 0x8000000 0 0) = Inr (s0, True))
   \<and> (\<exists>s'. RestoreEvictedGLResource ExGlobals 0 True (ExState 0x8000000 0 0) = Inr s'
          \<and> ShadowAt s' 0 = [] \<and> TextureLRU s' = [] \<and> HasStorage s' 0
          \<and> TryEvictGLResource ExGlobals 0 s' = Inr s')"
proof -
  have cap: "length (TextureLRU (ExState 0x8000000 0 0)) = TextureLRUMax (ExState 0x8000000 0 0)"
    by (simp add: ExState_def)
  from RestoreUpload_Ex_full obtain s0 where
    up: "RestoreUpload ExGlobals 0 (ExState 0x8000000 0 0) = Inr (s0, True)" by blast
  from Restore_registry_full[OF Reachable_ExState[OF CanCreateAsEvicted_ExDescriptor(2)] up cap, of True] obtain s' where
    r: "RestoreEvictedGLResource ExGlobals 0 True (ExState 0x8000000 0 0) = Inr s'"
       "ShadowAt s' 0 = []"
    and l: "\<forall>s'' g'. Step\<^sup>*\<^sup>* s' s'' \<longrightarrow>
                     RestoredAt s'' 0 \<and> 0 \<notin> set (TextureLRU s'')
                     \<and> TryEvictGLResource g' 0 s'' = Inr s''
                     \<and> (HasStorage s' 0 \<longrightarrow> HasStorage s'' 0)"
    by blast
  from l have t: "TryEvictGLResource ExGlobals 0 s' = Inr s'" by blast
  from Restore_Ex_full r(1) have h: "HasStorage s' 0" "TextureLRU s' = []" by auto
  show ?thesis using Reachable_ExState[OF CanCreateAsEvicted_ExDescriptor(2)] cap up r t h by blast
qed

section \<open>The round trip through restore, eviction and restore\<close>



lemma list_update_None_id: "i < length xs \<Longrightarrow> xs ! i = None \<Longrightarrow> xs[i := Some x, i := None] = xs"
  by (metis list_update_id list_update_overwrite)






lemma MipFits_update [simp]:
  "MipFits (t\<lparr> EvictionParamsPtr := e \<rparr>) i d = MipFits t i d"
  "MipFits (t\<lparr> Resource := r \<rparr>) i d = MipFits t i d"
  "MipFits (t\<lparr> bAllocatedStorage := A \<rparr>) i d = MipFits t i d"
  "MipFits (t\<lparr> GLStorage := G \<rparr>) i d = MipFits t i d"
  by (simp_all add: MipFits_def GetLockSize_def)



lemma AttachmentIsColor_update [simp]:
  "AttachmentIsColor g (t\<lparr> EvictionParamsPtr := e \<rparr>) = AttachmentIsColor g t"
  "AttachmentIsColor g (t\<lparr> Resource := r \<rparr>) = AttachmentIsColor g t"
  "AttachmentIsColor g (t\<lparr> bAllocatedStorage := A \<rparr>) = AttachmentIsColor g t"
  "AttachmentIsColor g (t\<lparr> GLStorage := G \<rparr>) = AttachmentIsColor g t"
  by (simp_all add: AttachmentIsColor_def)

lemma TileMemDepth_update [simp]:
  "TileMemDepth g (t\<lparr> EvictionParamsPtr := e \<rparr>) = TileMemDepth g t"
  "TileMemDepth g (t\<lparr> Resource := r \<rparr>) = TileMemDepth g t"
  "TileMemDepth g (t\<lparr> bAllocatedStorage := A \<rparr>) = TileMemDepth g t"
  "TileMemDepth g (t\<lparr> GLStorage := G \<rparr>) = TileMemDepth g t"
  by (simp_all add: TileMemDepth_def)

lemma CanCreateAsEvicted_update [simp]:
  "CanCreateAsEvicted g (t\<lparr> EvictionParamsPtr := e \<rparr>) = CanCreateAsEvicted g t"
  "CanCreateAsEvicted g (t\<lparr> Resource := r \<rparr>) = CanCreateAsEvicted g t"
  "CanCreateAsEvicted g (t\<lparr> bAllocatedStorage := A \<rparr>) = CanCreateAsEvicted g t"
  "CanCreateAsEvicted g (t\<lparr> GLStorage := G \<rparr>) = CanCreateAsEvicted g t"
  by (simp_all add: CanCreateAsEvicted_def)

lemma Uploadable_update [simp]:
  "Uploadable g (t\<lparr> EvictionParamsPtr := e \<rparr>) = Uploadable g t"
  "Uploadable g (t\<lparr> Resource := r \<rparr>) = Uploadable g t"
  "Uploadable g (t\<lparr> bAllocatedStorage := A \<rparr>) = Uploadable g t"
  "Uploadable g (t\<lparr> GLStorage := G \<rparr>) = Uploadable g t"
  by (simp_all add: Uploadable_def)




lemma FullRetention_update [simp]:
  "FullRetention g (t\<lparr> EvictionParamsPtr := e \<rparr>) = FullRetention g t"
  "FullRetention g (t\<lparr> Resource := r \<rparr>) = FullRetention g t"
  "FullRetention g (t\<lparr> bAllocatedStorage := A \<rparr>) = FullRetention g t"
  "FullRetention g (t\<lparr> GLStorage := G \<rparr>) = FullRetention g t"
  by (simp_all add: FullRetention_def)

lemma RetainMipsOf_update [simp]:
  "RetainMipsOf g b (t\<lparr> EvictionParamsPtr := e \<rparr>) = RetainMipsOf g b t"
  "RetainMipsOf g b (t\<lparr> Resource := r \<rparr>) = RetainMipsOf g b t"
  "RetainMipsOf g b (t\<lparr> bAllocatedStorage := A \<rparr>) = RetainMipsOf g b t"
  "RetainMipsOf g b (t\<lparr> GLStorage := G \<rparr>) = RetainMipsOf g b t"
  by (simp_all add: RetainMipsOf_def)














end
